theory Spec2Isabelle
  imports Complex_Main
begin

section \<open>Python values used by the generator\<close>

text \<open>
  A Python \<open>str\<close> is a sequence of Unicode code points, so it is modelled as a list of
  code points: \<open>len\<close> of the list is the character count, while the byte length is the
  length of the UTF-8 encoding. \<open>ascii\<close> turns an ASCII literal into such a string.
\<close>

type_synonym pystr = "nat list"

definition ascii :: "string \<Rightarrow> pystr" where
  "ascii s = map of_char s"

abbreviation dquote :: pystr where "dquote \<equiv> [34]"
abbreviation squote :: pystr where "squote \<equiv> [39]"
abbreviation backslash :: pystr where "backslash \<equiv> [92]"
abbreviation backtick :: pystr where "backtick \<equiv> [96]"

text \<open>The non-ASCII characters of the source: U+20AC, U+00E9 and U+00EA.\<close>

abbreviation euro :: pystr where "euro \<equiv> [8364]"
abbreviation e_acute :: nat where "e_acute \<equiv> 233"
abbreviation e_circumflex :: nat where "e_circumflex \<equiv> 234"

datatype error = ValueError | OverflowError | UnicodeEncodeError

text \<open>
  \<open>value.encode('utf-8')\<close>: one to four bytes per code point; a surrogate code point
  (U+D800 to U+DFFF) has no UTF-8 encoding and raises \<open>UnicodeEncodeError\<close>.
\<close>

definition utf8_char :: "nat \<Rightarrow> error + nat list" where
  "utf8_char c =
     (if c < 0x80 then Inr [c]
      else if c < 0x800 then Inr [0xC0 + c div 0x40, 0x80 + c mod 0x40]
      else if 0xD800 \<le> c \<and> c \<le> 0xDFFF then Inl UnicodeEncodeError
      else if c < 0x10000 then
        Inr [0xE0 + c div 0x1000, 0x80 + (c div 0x40) mod 0x40, 0x80 + c mod 0x40]
      else
        Inr [0xF0 + c div 0x40000, 0x80 + (c div 0x1000) mod 0x40,
             0x80 + (c div 0x40) mod 0x40, 0x80 + c mod 0x40])"

fun encode_utf8 :: "pystr \<Rightarrow> error + nat list" where
  "encode_utf8 [] = Inr []"
| "encode_utf8 (c # cs) =
     (case utf8_char c of
        Inl e \<Rightarrow> Inl e
      | Inr bs \<Rightarrow> (case encode_utf8 cs of Inl e \<Rightarrow> Inl e | Inr rest \<Rightarrow> Inr (bs @ rest)))"

text \<open>
  Decimal formatting of an integer inside an f-string (\<open>str(n)\<close>). \<open>str_int\<close> gives the
  decimal text of every integer. CPython from version 3.11 on refuses to print an integer
  of more than 4300 digits (\<open>ValueError\<close>, a limit the interpreter can be configured
  with); \<open>printable\<close> below says that an integer is within that limit, and the statement
  of when the generator returns is made for printable identifiers.
\<close>

fun str_nat :: "nat \<Rightarrow> pystr" where
  "str_nat n = (if n < 10 then [48 + n] else str_nat (n div 10) @ [48 + n mod 10])"

declare str_nat.simps [simp del]

definition str_int :: "int \<Rightarrow> pystr" where
  "str_int i = (if i < 0 then 45 # str_nat (nat (- i)) else str_nat (nat i))"

text \<open>
  A Python \<open>float\<close> is a finite double, an infinity or a NaN. A finite double is the
  rational number it denotes. \<open>int(x)\<close> truncates a finite float toward zero, raises
  \<open>OverflowError\<close> on an infinity and \<open>ValueError\<close> on a NaN.
\<close>

datatype pyfloat = Finite rat | PosInf | NegInf | NaN

datatype pynum = PyInt int | PyFloat pyfloat

definition trunc_rat :: "rat \<Rightarrow> int" where
  "trunc_rat q = (if 0 \<le> q then \<lfloor>q\<rfloor> else \<lceil>q\<rceil>)"

fun py_int :: "pynum \<Rightarrow> error + int" where
  "py_int (PyInt i) = Inr i"
| "py_int (PyFloat (Finite q)) = Inr (trunc_rat q)"
| "py_int (PyFloat PosInf) = Inl OverflowError"
| "py_int (PyFloat NegInf) = Inl OverflowError"
| "py_int (PyFloat NaN) = Inl ValueError"

text \<open>
  The standard-library functions the generator calls are parameters of the model:
  \<^item> \<open>float_of_str s\<close> is \<open>float(s)\<close>, \<open>None\<close> when it raises \<open>ValueError\<close>;
  \<^item> \<open>float_to_str x\<close> is the text an f-string gives a float;
  \<^item> \<open>strptime_ts s\<close> is \<open>datetime.strptime(s, '%Y-%m-%d %H:%M:%S')\<close>, \<open>None\<close> when it
    raises \<open>ValueError\<close>;
  \<^item> \<open>strftime_ts d\<close> and \<open>strftime_dmy d\<close> are \<open>d.strftime\<close> with the formats
    \<open>'%Y-%m-%d %H:%M:%S'\<close> and \<open>'%d/%m/%Y'\<close>.
  The type \<open>'d\<close> is the type of datetime values. The reading of the clock
  (\<open>datetime.now()\<close>) is passed to each function that may read it.
\<close>

record 'd pylib =
  float_of_str :: "pystr \<Rightarrow> pyfloat option"
  float_to_str :: "pyfloat \<Rightarrow> pystr"
  strptime_ts :: "pystr \<Rightarrow> 'd option"
  strftime_ts :: "'d \<Rightarrow> pystr"
  strftime_dmy :: "'d \<Rightarrow> pystr"

definition num_to_str :: "'d pylib \<Rightarrow> pynum \<Rightarrow> pystr" where
  "num_to_str lib amount =
     (case amount of PyInt i \<Rightarrow> str_int i | PyFloat x \<Rightarrow> float_to_str lib x)"

section \<open>The composite value encoder\<close>

definition php_serialize_string :: "pystr \<Rightarrow> error + pystr" where
  \<open>php_serialize_string v =
     (case encode_utf8 v of
        Inl e \<Rightarrow> Inl e
      | Inr bs \<Rightarrow>
          (let byte_length = length bs
           in Inr (ascii ''s:'' @ str_nat byte_length @ ascii '':"'' @ v @ ascii ''"'')))\<close>

definition php_serialize_name :: "pystr \<Rightarrow> pystr \<Rightarrow> error + pystr" where
  \<open>php_serialize_name first_name last_name =
     (case php_serialize_string first_name of
        Inl e \<Rightarrow> Inl e
      | Inr first_serialized \<Rightarrow>
          (case php_serialize_string last_name of
             Inl e \<Rightarrow> Inl e
           | Inr last_serialized \<Rightarrow>
               Inr (ascii ''a:2:{s:10:"first-name";'' @ first_serialized @
                    ascii '';s:9:"last-name";'' @ last_serialized @ ascii '';}'')))\<close>

definition php_serialize_calculation :: "'d pylib \<Rightarrow> pynum \<Rightarrow> pystr \<Rightarrow> error + pystr" where
  \<open>php_serialize_calculation lib amount currency_symbol =
     (case py_int amount of
        Inl e \<Rightarrow> Inl e
      | Inr n \<Rightarrow>
          (let formatted_amount = currency_symbol @ ascii '' '' @ str_int n
           in case php_serialize_string formatted_amount of
                Inl e \<Rightarrow> Inl e
              | Inr formatted_serialized \<Rightarrow>
                  Inr (ascii ''a:2:{s:6:"result";d:'' @ num_to_str lib amount @
                       ascii '';s:17:"formatting_result";'' @ formatted_serialized @
                       ascii '';}'')))\<close>

text \<open>
  A string literal concatenated with a call that may raise, and a list literal whose
  elements are evaluated from left to right: the first exception is the result.
\<close>

definition lit_plus :: "pystr \<Rightarrow> error + pystr \<Rightarrow> error + pystr" where
  "lit_plus p m = (case m of Inl e \<Rightarrow> Inl e | Inr s \<Rightarrow> Inr (p @ s))"

fun list_literal :: "(error + 'a) list \<Rightarrow> error + 'a list" where
  "list_literal [] = Inr []"
| "list_literal (m # ms) =
     (case m of
        Inl e \<Rightarrow> Inl e
      | Inr x \<Rightarrow> (case list_literal ms of Inl e \<Rightarrow> Inl e | Inr xs \<Rightarrow> Inr (x # xs)))"

text \<open>\<open>sep.join(parts)\<close>.\<close>

fun join :: "pystr \<Rightarrow> pystr list \<Rightarrow> pystr" where
  "join sep [] = []"
| "join sep [p] = p"
| "join sep (p # q # ps) = p @ sep @ join sep (q # ps)"

definition php_serialize_stripe ::
  "pystr \<Rightarrow> pystr \<Rightarrow> pystr \<Rightarrow> pystr \<Rightarrow> pystr \<Rightarrow> pystr \<Rightarrow> pystr \<Rightarrow> error + pystr" where
  \<open>php_serialize_stripe transaction_id amount currency mode product_name payment_type status =
     (let transaction_link = ascii ''https://dashboard.stripe.com/payments/'' @ transaction_id
      in case list_literal
           [lit_plus (ascii ''s:4:"mode";'') (php_serialize_string mode),
            lit_plus (ascii ''s:12:"product_name";'') (php_serialize_string product_name),
            lit_plus (ascii ''s:12:"payment_type";'') (php_serialize_string payment_type),
            lit_plus (ascii ''s:6:"amount";'') (php_serialize_string amount),
            lit_plus (ascii ''s:8:"quantity";'') (php_serialize_string (ascii ''1'')),
            lit_plus (ascii ''s:8:"currency";'') (php_serialize_string currency),
            lit_plus (ascii ''s:14:"transaction_id";'') (php_serialize_string transaction_id),
            lit_plus (ascii ''s:16:"transaction_link";'') (php_serialize_string transaction_link),
            lit_plus (ascii ''s:6:"status";'') (php_serialize_string status)]
         of Inl e \<Rightarrow> Inl e
          | Inr parts \<Rightarrow> Inr (ascii ''a:9:{'' @ join (ascii '';'') parts @ ascii '';}''))\<close>

text \<open>The default arguments of \<open>php_serialize_stripe\<close>.\<close>

definition default_mode :: pystr where "default_mode = ascii ''live''"
definition default_product_name :: pystr where "default_product_name = ascii ''Plan 1''"
definition default_payment_type :: pystr where "default_payment_type = ascii ''One Time''"
definition default_status :: pystr where "default_status = ascii ''COMPLETED''"

section \<open>Statement rendering\<close>

text \<open>\<open>value.replace(old, new)\<close> for a one-character \<open>old\<close>.\<close>

fun replace_char :: "nat \<Rightarrow> pystr \<Rightarrow> pystr \<Rightarrow> pystr" where
  "replace_char old new [] = []"
| "replace_char old new (c # cs) =
     (if c = old then new @ replace_char old new cs else c # replace_char old new cs)"

definition escape_sql_string :: "pystr \<Rightarrow> pystr" where
  "escape_sql_string v =
     replace_char 39 (backslash @ squote) (replace_char 92 (backslash @ backslash) v)"

definition TABLE_NAME :: pystr where
  "TABLE_NAME = ascii ''wp_frmt_form_entry_meta''"

definition generate_insert_query ::
  "'d pylib \<Rightarrow> 'd \<Rightarrow> int \<Rightarrow> int \<Rightarrow> pystr \<Rightarrow> pystr \<Rightarrow> pystr option \<Rightarrow> pystr" where
  "generate_insert_query lib now meta_id entry_id meta_key meta_value date_created =
     (let created = (case date_created of None \<Rightarrow> strftime_ts lib now | Some s \<Rightarrow> s);
          escaped_value = escape_sql_string meta_value
      in ascii ''INSERT INTO '' @ backtick @ TABLE_NAME @ backtick @ ascii '' '' @
         ascii ''('' @ backtick @ ascii ''meta_id'' @ backtick @ ascii '', '' @
           backtick @ ascii ''entry_id'' @ backtick @ ascii '', '' @
           backtick @ ascii ''meta_key'' @ backtick @ ascii '', '' @
           backtick @ ascii ''meta_value'' @ backtick @ ascii '', '' @
           backtick @ ascii ''date_created'' @ backtick @ ascii '', '' @
           backtick @ ascii ''date_updated'' @ backtick @ ascii '') '' @
         ascii ''VALUES '' @
         ascii ''('' @ str_int meta_id @ ascii '', '' @ str_int entry_id @ ascii '', '' @
           squote @ meta_key @ squote @ ascii '', '' @
           squote @ escaped_value @ squote @ ascii '', '' @
           squote @ created @ squote @ ascii '', '' @
           squote @ ascii ''0000-00-00 00:00:00'' @ squote @ ascii '');'')"

section \<open>The entry row builder\<close>

text \<open>
  The keyword arguments of \<open>generate_entry_inserts\<close>. An argument left out by the caller
  has its default: \<open>party = False\<close>, \<open>t_shirt = False\<close>, \<open>t_shirt_size = None\<close>,
  \<open>date_created = None\<close>, \<open>currency = "EUR"\<close>.
\<close>

record entry_args =
  entry_id :: int
  meta_id_start :: int
  first_name :: pystr
  last_name :: pystr
  email :: pystr
  phone :: pystr
  grade :: pystr
  dojo_name :: pystr
  birth_date :: pystr
  gender :: pystr
  stripe_transaction_id :: pystr
  stripe_amount :: pystr
  party :: bool
  t_shirt :: bool
  t_shirt_size :: "pystr option"
  date_created :: "pystr option"
  currency :: pystr

definition default_currency :: pystr where "default_currency = ascii ''EUR''"

text \<open>\<open>gender_map.get(gender, gender)\<close>.\<close>

definition gender_map :: "pystr \<Rightarrow> pystr option" where
  "gender_map =
     [ascii ''M'' \<mapsto> ascii ''Masculin / Male'',
      ascii ''F'' \<mapsto> ascii ''F'' @ [e_acute] @ ascii ''minin / Female'']"

definition gender_value_of :: "pystr \<Rightarrow> pystr" where
  "gender_value_of g = (case gender_map g of Some full \<Rightarrow> full | None \<Rightarrow> g)"

text \<open>
  The two local variables the function updates, and the step it repeats for every
  included field: append the rendered statement, then increment the identifier.
\<close>

record gen_state =
  queries :: "pystr list"
  current_meta_id :: int

definition append_query ::
  "'d pylib \<Rightarrow> 'd \<Rightarrow> int \<Rightarrow> pystr \<Rightarrow> pystr \<Rightarrow> pystr \<Rightarrow> gen_state \<Rightarrow> gen_state" where
  "append_query lib now eid created meta_key meta_value st =
     \<lparr>queries = queries st @
        [generate_insert_query lib now (current_meta_id st) eid meta_key meta_value (Some created)],
      current_meta_id = current_meta_id st + 1\<rparr>"

definition bind_err :: "error + 'a \<Rightarrow> ('a \<Rightarrow> error + 'b) \<Rightarrow> error + 'b" where
  "bind_err m f = (case m of Inl e \<Rightarrow> Inl e | Inr x \<Rightarrow> f x)"

definition submission_date_of :: "'d pylib \<Rightarrow> 'd \<Rightarrow> pystr \<Rightarrow> error + pystr" where
  "submission_date_of lib now created =
     (if created \<noteq> [] then
        (case strptime_ts lib created of
           None \<Rightarrow> Inl ValueError
         | Some dt_obj \<Rightarrow> Inr (strftime_dmy lib dt_obj))
      else Inr (strftime_dmy lib now))"

definition py_float :: "'d pylib \<Rightarrow> pystr \<Rightarrow> error + pyfloat" where
  "py_float lib s = (case float_of_str lib s of None \<Rightarrow> Inl ValueError | Some x \<Rightarrow> Inr x)"

definition checkbox_value_of :: "bool \<Rightarrow> bool \<Rightarrow> pystr" where
  "checkbox_value_of party_flag t_shirt_flag =
     (let checkbox_values = [];
          checkbox_values =
            (if party_flag
             then checkbox_values @ [ascii ''F'' @ [e_circumflex] @ ascii ''te Finale / Final Party'']
             else checkbox_values);
          checkbox_values =
            (if t_shirt_flag then checkbox_values @ [ascii ''T-Shirt''] else checkbox_values)
      in join (ascii '', '') checkbox_values)"

definition generate_entry_inserts :: "'d pylib \<Rightarrow> 'd \<Rightarrow> entry_args \<Rightarrow> error + pystr list" where
  "generate_entry_inserts lib now a =
     (let created = (case date_created a of None \<Rightarrow> strftime_ts lib now | Some s \<Rightarrow> s);
          gender_value = gender_value_of (gender a);
          add = append_query lib now (entry_id a) created;
          st = \<lparr>queries = [], current_meta_id = meta_id_start a\<rparr>
      in
      bind_err (submission_date_of lib now created) (\<lambda>submission_date.
      let st = add (ascii ''hidden-1'') (str_int (entry_id a)) st;
          st = add (ascii ''hidden-2'') submission_date st;
          calculation_amount = (if t_shirt a then 20 else 0)
      in
      bind_err (php_serialize_calculation lib (PyInt calculation_amount) euro) (\<lambda>calculation_value.
      let st = add (ascii ''calculation-1'') calculation_value st
      in
      bind_err (py_float lib (stripe_amount a)) (\<lambda>amount.
      bind_err (php_serialize_calculation lib (PyFloat amount) euro) (\<lambda>calculation2_value.
      let st = add (ascii ''calculation-2'') calculation2_value st
      in
      bind_err (php_serialize_name (first_name a) (last_name a)) (\<lambda>name_value.
      let st = add (ascii ''name-1'') name_value st;
          st = add (ascii ''email-1'') (email a) st;
          st = add (ascii ''phone-1'') (phone a) st;
          st = add (ascii ''select-1'') (grade a) st;
          st = add (ascii ''text-3'') (dojo_name a) st;
          st = add (ascii ''date-1'') (birth_date a) st;
          st = (if t_shirt a then add (ascii ''select-2'') gender_value st else st);
          st = (case t_shirt_size a of
                  Some size_text \<Rightarrow>
                    if t_shirt a \<and> size_text \<noteq> []
                    then add (ascii ''select-3'') size_text st else st
                | None \<Rightarrow> st);
          st = (if t_shirt a then add (ascii ''select-4'') (ascii ''1'') st else st);
          st = add (ascii ''select-5'') (ascii ''1'') st;
          st = (if party a \<or> t_shirt a
                then add (ascii ''checkbox-2'') (checkbox_value_of (party a) (t_shirt a)) st
                else st)
      in
      bind_err (php_serialize_stripe (stripe_transaction_id a) (stripe_amount a) (currency a)
                  default_mode default_product_name default_payment_type default_status)
        (\<lambda>stripe_value.
      let st = add (ascii ''stripe-ocs-1'') stripe_value st
      in Inr (queries st))))))))"

text \<open>
  \<open>generate_multiple_entries\<close>. Each element of \<open>entries\<close> is a dictionary; it is modelled
  by the record of the keyword arguments it holds, an absent optional key standing for
  its default. The loop reads the twelve required keys, \<open>date_created\<close> and \<open>currency\<close>;
  it passes no \<open>party\<close>, \<open>t_shirt\<close> or \<open>t_shirt_size\<close>, so the callee uses their defaults.
  \<open>clock i\<close> is the reading of the clock while entry number \<open>i\<close> is generated.
\<close>

definition batch_call_args :: "entry_args \<Rightarrow> entry_args" where
  "batch_call_args entry =
     \<lparr>entry_id = entry_id entry,
      meta_id_start = meta_id_start entry,
      first_name = first_name entry,
      last_name = last_name entry,
      email = email entry,
      phone = phone entry,
      grade = grade entry,
      dojo_name = dojo_name entry,
      birth_date = birth_date entry,
      gender = gender entry,
      stripe_transaction_id = stripe_transaction_id entry,
      stripe_amount = stripe_amount entry,
      party = False,
      t_shirt = False,
      t_shirt_size = None,
      date_created = date_created entry,
      currency = currency entry\<rparr>"

fun entries_loop ::
  "'d pylib \<Rightarrow> (nat \<Rightarrow> 'd) \<Rightarrow> nat \<Rightarrow> entry_args list \<Rightarrow> pystr list \<Rightarrow> error + pystr list" where
  "entries_loop lib clock i [] all_queries = Inr all_queries"
| "entries_loop lib clock i (entry # rest) all_queries =
     (case generate_entry_inserts lib (clock i) (batch_call_args entry) of
        Inl e \<Rightarrow> Inl e
      | Inr entry_queries \<Rightarrow>
          entries_loop lib clock (Suc i) rest ((all_queries @ entry_queries) @ [[]]))"

definition generate_multiple_entries ::
  "'d pylib \<Rightarrow> (nat \<Rightarrow> 'd) \<Rightarrow> entry_args list \<Rightarrow> error + pystr list" where
  "generate_multiple_entries lib clock entries = entries_loop lib clock 0 entries []"

section \<open>A reference reading of the standard library, for concrete runs\<close>

text \<open>
  The general theorems below hold for every library. To evaluate the generator on
  concrete inputs, \<open>ref_lib\<close> gives the library functions on plain inputs:
  \<^item> \<open>ref_float_of_str\<close> reads ASCII digits with an optional fraction part (\<open>350.00\<close>) as
    the decimal they write, which is the double \<open>float\<close> returns whenever that decimal is
    itself a double; other spellings that \<open>float\<close> accepts (sign, exponent, \<open>inf\<close>) are
    rejected here;
  \<^item> \<open>ref_float_to_str\<close> writes the exact decimal expansion, which is what an f-string
    prints for a double of magnitude between \<open>1e-4\<close> and \<open>1e16\<close> with at most 15
    significant digits;
  \<^item> \<open>ref_strptime_ts\<close> accepts the zero-padded form \<open>YYYY-MM-DD HH:MM:SS\<close> of a valid
    date and time; \<open>strptime\<close> also accepts one-digit fields, which are rejected here.
\<close>

record datetime =
  year :: nat
  month :: nat
  day :: nat
  hour :: nat
  minute :: nat
  second :: nat

definition zfill :: "nat \<Rightarrow> nat \<Rightarrow> pystr" where
  "zfill w n = replicate (w - length (str_nat n)) 48 @ str_nat n"

definition ref_strftime_ts :: "datetime \<Rightarrow> pystr" where
  "ref_strftime_ts d =
     zfill 4 (year d) @ ascii ''-'' @ zfill 2 (month d) @ ascii ''-'' @ zfill 2 (day d) @
     ascii '' '' @ zfill 2 (hour d) @ ascii '':'' @ zfill 2 (minute d) @ ascii '':'' @
     zfill 2 (second d)"

definition ref_strftime_dmy :: "datetime \<Rightarrow> pystr" where
  "ref_strftime_dmy d =
     zfill 2 (day d) @ ascii ''/'' @ zfill 2 (month d) @ ascii ''/'' @ zfill 4 (year d)"

fun digits_value :: "nat \<Rightarrow> pystr \<Rightarrow> nat option" where
  "digits_value acc [] = Some acc"
| "digits_value acc (c # cs) =
     (if 48 \<le> c \<and> c \<le> 57 then digits_value (10 * acc + (c - 48)) cs else None)"

definition number_of_digits :: "pystr \<Rightarrow> nat option" where
  "number_of_digits s = (if s = [] then None else digits_value 0 s)"

definition days_in_month :: "nat \<Rightarrow> nat \<Rightarrow> nat" where
  "days_in_month y m =
     (if m = 2 then (if y mod 4 = 0 \<and> (y mod 100 \<noteq> 0 \<or> y mod 400 = 0) then 29 else 28)
      else if m = 4 \<or> m = 6 \<or> m = 9 \<or> m = 11 then 30 else 31)"

definition valid_datetime :: "datetime \<Rightarrow> bool" where
  "valid_datetime d \<longleftrightarrow>
     1 \<le> year d \<and> year d \<le> 9999 \<and> 1 \<le> month d \<and> month d \<le> 12 \<and>
     1 \<le> day d \<and> day d \<le> days_in_month (year d) (month d) \<and>
     hour d \<le> 23 \<and> minute d \<le> 59 \<and> second d \<le> 59"

definition ref_strptime_ts :: "pystr \<Rightarrow> datetime option" where
  "ref_strptime_ts s =
     (if length s = 19 \<and> s ! 4 = 45 \<and> s ! 7 = 45 \<and> s ! 10 = 32 \<and> s ! 13 = 58 \<and> s ! 16 = 58
      then
        (case number_of_digits (take 4 s) of None \<Rightarrow> None | Some y \<Rightarrow>
         case number_of_digits (take 2 (drop 5 s)) of None \<Rightarrow> None | Some m \<Rightarrow>
         case number_of_digits (take 2 (drop 8 s)) of None \<Rightarrow> None | Some d \<Rightarrow>
         case number_of_digits (take 2 (drop 11 s)) of None \<Rightarrow> None | Some h \<Rightarrow>
         case number_of_digits (take 2 (drop 14 s)) of None \<Rightarrow> None | Some mi \<Rightarrow>
         case number_of_digits (take 2 (drop 17 s)) of None \<Rightarrow> None | Some sec \<Rightarrow>
           (let dt_obj = \<lparr>year = y, month = m, day = d, hour = h, minute = mi, second = sec\<rparr>
            in if valid_datetime dt_obj then Some dt_obj else None))
      else None)"

definition ref_float_of_str :: "pystr \<Rightarrow> pyfloat option" where
  "ref_float_of_str s =
     (let whole = takeWhile (\<lambda>c. c \<noteq> 46) s;
          rest = dropWhile (\<lambda>c. c \<noteq> 46) s
      in case number_of_digits whole of
           None \<Rightarrow> None
         | Some n \<Rightarrow>
             (if rest = [] then Some (Finite (of_nat n))
              else case number_of_digits (tl rest) of
                     None \<Rightarrow> None
                   | Some f \<Rightarrow> Some (Finite (of_nat n + of_nat f / 10 ^ length (tl rest)))))"

fun frac_digits :: "nat \<Rightarrow> rat \<Rightarrow> pystr" where
  "frac_digits 0 r = []"
| "frac_digits (Suc k) r =
     (if r = 0 then []
      else (let d = nat \<lfloor>10 * r\<rfloor> in (48 + d) # frac_digits k (10 * r - of_nat d)))"

definition ref_float_to_str :: "pyfloat \<Rightarrow> pystr" where
  "ref_float_to_str x =
     (case x of
        Finite q \<Rightarrow>
          (let n = nat \<bar>trunc_rat q\<bar>; r = \<bar>q\<bar> - of_nat n
           in (if q < 0 then ascii ''-'' else []) @ str_nat n @ ascii ''.'' @
              (if r = 0 then ascii ''0'' else frac_digits 17 r))
      | PosInf \<Rightarrow> ascii ''inf''
      | NegInf \<Rightarrow> ascii ''-inf''
      | NaN \<Rightarrow> ascii ''nan'')"

definition ref_lib :: "datetime pylib" where
  "ref_lib =
     \<lparr>float_of_str = ref_float_of_str, float_to_str = ref_float_to_str,
      strptime_ts = ref_strptime_ts, strftime_ts = ref_strftime_ts,
      strftime_dmy = ref_strftime_dmy\<rparr>"

text \<open>A clock reading and two entries used in the concrete runs.\<close>

definition example_now :: datetime where
  "example_now = \<lparr>year = 2025, month = 7, day = 21, hour = 9, minute = 30, second = 5\<rparr>"

definition example_clock :: "nat \<Rightarrow> datetime" where
  "example_clock i = example_now\<lparr>second := 5 + i\<rparr>"

definition example_entry :: entry_args where
  "example_entry =
     \<lparr>entry_id = 668, meta_id_start = 6031,
      first_name = ascii ''Xander'', last_name = ascii ''Beemer'',
      email = ascii ''xjbeemer@hotmail.com'', phone = ascii ''+31 613865831'',
      grade = ascii ''6 Dan'', dojo_name = ascii ''Miko Dojo'',
      birth_date = ascii ''02/03/1973'', gender = ascii ''M'',
      stripe_transaction_id = ascii ''pi_3RnbxeBvS0tjVNMi1g2TFBHk'',
      stripe_amount = ascii ''350.00'',
      party = True, t_shirt = True, t_shirt_size = Some (ascii ''L''),
      date_created = None, currency = default_currency\<rparr>"

definition plain_entry :: entry_args where
  "plain_entry =
     example_entry\<lparr>entry_id := 669, meta_id_start := 7000, party := False, t_shirt := False,
       t_shirt_size := None, date_created := Some (ascii ''2025-06-15 10:30:00'')\<rparr>"

section \<open>Notions the statements use\<close>

text \<open>
  The UTF-8 byte length as the encoding defines it: one byte below U+0080, two below
  U+0800, three below U+10000, four above. A string is encodable when it holds no
  surrogate code point.
\<close>

definition utf8_width :: "nat \<Rightarrow> nat" where
  "utf8_width c = (if c < 0x80 then 1 else if c < 0x800 then 2 else if c < 0x10000 then 3 else 4)"

definition utf8_length :: "pystr \<Rightarrow> nat" where
  "utf8_length s = sum_list (map utf8_width s)"

definition is_surrogate :: "nat \<Rightarrow> bool" where
  "is_surrogate c \<longleftrightarrow> 0xD800 \<le> c \<and> c \<le> 0xDFFF"

definition encodable :: "pystr \<Rightarrow> bool" where
  "encodable s \<longleftrightarrow> list_all (\<lambda>c. \<not> is_surrogate c) s"

text \<open>
  The field table of the row builder: for each of the sixteen fields, whether it is
  included, its key and its value. The rows of an entry are the included fields in table
  order, and they are numbered from the starting identifier.
\<close>

definition created_of :: "'d pylib \<Rightarrow> 'd \<Rightarrow> entry_args \<Rightarrow> pystr" where
  "created_of lib now a = (case date_created a of None \<Rightarrow> strftime_ts lib now | Some s \<Rightarrow> s)"

definition size_supplied :: "entry_args \<Rightarrow> bool" where
  "size_supplied a \<longleftrightarrow> (case t_shirt_size a of None \<Rightarrow> False | Some s \<Rightarrow> s \<noteq> [])"

definition size_text :: "entry_args \<Rightarrow> pystr" where
  "size_text a = (case t_shirt_size a of None \<Rightarrow> [] | Some s \<Rightarrow> s)"

definition field_table ::
  "entry_args \<Rightarrow> pystr \<Rightarrow> pystr \<Rightarrow> pystr \<Rightarrow> pystr \<Rightarrow> pystr \<Rightarrow> (bool \<times> pystr \<times> pystr) list" where
  "field_table a submission_date calculation_1 calculation_2 name_value payment =
     [(True, ascii ''hidden-1'', str_int (entry_id a)),
      (True, ascii ''hidden-2'', submission_date),
      (True, ascii ''calculation-1'', calculation_1),
      (True, ascii ''calculation-2'', calculation_2),
      (True, ascii ''name-1'', name_value),
      (True, ascii ''email-1'', email a),
      (True, ascii ''phone-1'', phone a),
      (True, ascii ''select-1'', grade a),
      (True, ascii ''text-3'', dojo_name a),
      (True, ascii ''date-1'', birth_date a),
      (t_shirt a, ascii ''select-2'', gender_value_of (gender a)),
      (t_shirt a \<and> size_supplied a, ascii ''select-3'', size_text a),
      (t_shirt a, ascii ''select-4'', ascii ''1''),
      (True, ascii ''select-5'', ascii ''1''),
      (party a \<or> t_shirt a, ascii ''checkbox-2'', checkbox_value_of (party a) (t_shirt a)),
      (True, ascii ''stripe-ocs-1'', payment)]"

definition included :: "(bool \<times> 'a) list \<Rightarrow> 'a list" where
  "included table = map snd (filter fst table)"

definition entry_rows :: "'d pylib \<Rightarrow> 'd \<Rightarrow> entry_args \<Rightarrow> error + (pystr \<times> pystr) list" where
  "entry_rows lib now a =
     bind_err (submission_date_of lib now (created_of lib now a)) (\<lambda>submission_date.
     bind_err (php_serialize_calculation lib (PyInt (if t_shirt a then 20 else 0)) euro)
       (\<lambda>calculation_1.
     bind_err (py_float lib (stripe_amount a)) (\<lambda>amount.
     bind_err (php_serialize_calculation lib (PyFloat amount) euro) (\<lambda>calculation_2.
     bind_err (php_serialize_name (first_name a) (last_name a)) (\<lambda>name_value.
     bind_err (php_serialize_stripe (stripe_transaction_id a) (stripe_amount a) (currency a)
                 default_mode default_product_name default_payment_type default_status)
       (\<lambda>payment.
     Inr (included
            (field_table a submission_date calculation_1 calculation_2 name_value payment))))))))"

fun number_rows :: "int \<Rightarrow> 'a list \<Rightarrow> (int \<times> 'a) list" where
  "number_rows i [] = []"
| "number_rows i (r # rs) = (i, r) # number_rows (i + 1) rs"

definition render_row ::
  "'d pylib \<Rightarrow> 'd \<Rightarrow> int \<Rightarrow> pystr \<Rightarrow> int \<times> pystr \<times> pystr \<Rightarrow> pystr" where
  "render_row lib now eid created r =
     generate_insert_query lib now (fst r) eid (fst (snd r)) (snd (snd r)) (Some created)"

definition render_rows ::
  "'d pylib \<Rightarrow> 'd \<Rightarrow> int \<Rightarrow> pystr \<Rightarrow> int \<Rightarrow> (pystr \<times> pystr) list \<Rightarrow> pystr list" where
  "render_rows lib now eid created start kvs =
     map (render_row lib now eid created) (number_rows start kvs)"

text \<open>
  \<open>emitted lib now a ks vs qs\<close>: the statements \<open>qs\<close> are the rows with keys \<open>ks\<close> and
  values \<open>vs\<close>, in this order, the row at position \<open>i\<close> carrying the identifier
  \<open>meta_id_start a + i\<close>.
\<close>

definition emitted ::
  "'d pylib \<Rightarrow> 'd \<Rightarrow> entry_args \<Rightarrow> pystr list \<Rightarrow> pystr list \<Rightarrow> pystr list \<Rightarrow> bool" where
  "emitted lib now a ks vs qs \<longleftrightarrow>
     length qs = length ks \<and> length vs = length ks \<and>
     (\<forall>i < length ks.
        qs ! i = generate_insert_query lib now (meta_id_start a + int i) (entry_id a)
                   (ks ! i) (vs ! i) (Some (created_of lib now a)))"

definition field_keys :: "entry_args \<Rightarrow> (bool \<times> pystr) list" where
  "field_keys a =
     [(True, ascii ''hidden-1''), (True, ascii ''hidden-2''),
      (True, ascii ''calculation-1''), (True, ascii ''calculation-2''),
      (True, ascii ''name-1''), (True, ascii ''email-1''), (True, ascii ''phone-1''),
      (True, ascii ''select-1''), (True, ascii ''text-3''), (True, ascii ''date-1''),
      (t_shirt a, ascii ''select-2''), (t_shirt a \<and> size_supplied a, ascii ''select-3''),
      (t_shirt a, ascii ''select-4''), (True, ascii ''select-5''),
      (party a \<or> t_shirt a, ascii ''checkbox-2''), (True, ascii ''stripe-ocs-1'')]"

definition all_field_keys :: "pystr list" where
  "all_field_keys =
     [ascii ''hidden-1'', ascii ''hidden-2'', ascii ''calculation-1'', ascii ''calculation-2'',
      ascii ''name-1'', ascii ''email-1'', ascii ''phone-1'', ascii ''select-1'',
      ascii ''text-3'', ascii ''date-1'', ascii ''select-2'', ascii ''select-3'',
      ascii ''select-4'', ascii ''select-5'', ascii ''checkbox-2'', ascii ''stripe-ocs-1'']"

definition unconditional_keys :: "pystr list" where
  "unconditional_keys =
     [ascii ''hidden-1'', ascii ''hidden-2'', ascii ''calculation-1'', ascii ''calculation-2'',
      ascii ''name-1'', ascii ''email-1'', ascii ''phone-1'', ascii ''select-1'',
      ascii ''text-3'', ascii ''date-1'', ascii ''select-5'', ascii ''stripe-ocs-1'']"

text \<open>When a call returns instead of raising.\<close>

definition succeeds :: "error + 'a \<Rightarrow> bool" where
  "succeeds m \<longleftrightarrow> (case m of Inl e \<Rightarrow> False | Inr x \<Rightarrow> True)"

definition timestamp_ok :: "'d pylib \<Rightarrow> 'd \<Rightarrow> entry_args \<Rightarrow> bool" where
  "timestamp_ok lib now a \<longleftrightarrow>
     created_of lib now a = [] \<or> strptime_ts lib (created_of lib now a) \<noteq> None"

definition amount_ok :: "'d pylib \<Rightarrow> entry_args \<Rightarrow> bool" where
  "amount_ok lib a \<longleftrightarrow>
     (case float_of_str lib (stripe_amount a) of Some (Finite q) \<Rightarrow> True | _ \<Rightarrow> False)"

text \<open>
  The text encoding as the specification words it: the tag, the UTF-8 byte length, and
  the raw text between literal quotes.
\<close>

definition spec_encode_text :: "pystr \<Rightarrow> pystr" where
  \<open>spec_encode_text s = ascii ''s:'' @ str_nat (utf8_length s) @ ascii '':"'' @ s @ ascii ''"''\<close>

definition spec_pair :: "pystr \<times> pystr \<Rightarrow> pystr" where
  "spec_pair kv = spec_encode_text (fst kv) @ ascii '';'' @ spec_encode_text (snd kv) @ ascii '';''"

definition payment_pairs :: "pystr \<Rightarrow> pystr \<Rightarrow> pystr \<Rightarrow> pystr \<Rightarrow> pystr \<Rightarrow> pystr \<Rightarrow> pystr \<Rightarrow> (pystr \<times> pystr) list" where
  "payment_pairs transaction_id amount currency_code mode product_name payment_type status =
     [(ascii ''mode'', mode),
      (ascii ''product_name'', product_name),
      (ascii ''payment_type'', payment_type),
      (ascii ''amount'', amount),
      (ascii ''quantity'', ascii ''1''),
      (ascii ''currency'', currency_code),
      (ascii ''transaction_id'', transaction_id),
      (ascii ''transaction_link'', ascii ''https://dashboard.stripe.com/payments/'' @ transaction_id),
      (ascii ''status'', status)]"

text \<open>
  Statement rendering as the specification words it: the field key is escaped as the
  field value is.
\<close>

definition spec_insert_query ::
  "'d pylib \<Rightarrow> 'd \<Rightarrow> int \<Rightarrow> int \<Rightarrow> pystr \<Rightarrow> pystr \<Rightarrow> pystr option \<Rightarrow> pystr" where
  "spec_insert_query lib now meta_id eid meta_key meta_value created =
     generate_insert_query lib now meta_id eid (escape_sql_string meta_key) meta_value created"

definition escape_char :: "nat \<Rightarrow> pystr" where
  "escape_char c = (if c = 92 then [92, 92] else if c = 39 then [92, 39] else [c])"

text \<open>
  Batch generation as the specification words it: every record's own statement sequence,
  generated from all the fields of the record, each followed by a separator.
\<close>

definition with_separator :: "pystr list \<Rightarrow> pystr list" where
  "with_separator entry_queries = entry_queries @ [[]]"

fun spec_batch :: "'d pylib \<Rightarrow> (nat \<Rightarrow> 'd) \<Rightarrow> nat \<Rightarrow> entry_args list \<Rightarrow> error + pystr list" where
  "spec_batch lib clock i [] = Inr []"
| "spec_batch lib clock i (entry # rest) =
     (case generate_entry_inserts lib (clock i) entry of
        Inl e \<Rightarrow> Inl e
      | Inr entry_queries \<Rightarrow>
          (case spec_batch lib clock (Suc i) rest of
             Inl e \<Rightarrow> Inl e
           | Inr others \<Rightarrow> Inr (with_separator entry_queries @ others)))"

text \<open>Further concrete inputs.\<close>

definition bad_date_entry :: entry_args where
  "bad_date_entry = plain_entry\<lparr>date_created := Some (ascii ''15/06/2025'')\<rparr>"

definition quoted_key :: pystr where
  "quoted_key = ascii ''it'' @ squote @ ascii ''s''"

definition obrien :: pystr where
  "obrien = ascii ''O'' @ squote @ ascii ''Brien'' @ backslash"

text \<open>The fixed text of a statement before the row identifier.\<close>

definition statement_head :: pystr where
  "statement_head =
     ascii ''INSERT INTO '' @ backtick @ TABLE_NAME @ backtick @ ascii '' ('' @
     backtick @ ascii ''meta_id'' @ backtick @ ascii '', '' @
     backtick @ ascii ''entry_id'' @ backtick @ ascii '', '' @
     backtick @ ascii ''meta_key'' @ backtick @ ascii '', '' @
     backtick @ ascii ''meta_value'' @ backtick @ ascii '', '' @
     backtick @ ascii ''date_created'' @ backtick @ ascii '', '' @
     backtick @ ascii ''date_updated'' @ backtick @ ascii '') VALUES (''"

text \<open>The number of list elements a call returns (none when it raises).\<close>

definition returned_length :: "error + 'a list \<Rightarrow> nat" where
  "returned_length m = (case m of Inl e \<Rightarrow> 0 | Inr xs \<Rightarrow> length xs)"

text \<open>
  The integers CPython prints with its default limit of 4300 digits, and the entries
  whose entry identifier and sixteen possible row identifiers are such integers.
\<close>

definition int_max_str_digits :: nat where
  "int_max_str_digits = 4300"

definition printable :: "int \<Rightarrow> bool" where
  "printable i \<longleftrightarrow> length (str_nat (nat \<bar>i\<bar>)) \<le> int_max_str_digits"

definition ids_printable :: "entry_args \<Rightarrow> bool" where
  "ids_printable a \<longleftrightarrow>
     printable (entry_id a) \<and> list_all (\<lambda>k. printable (meta_id_start a + int k)) [0..<16]"

section \<open>Basic facts\<close>

lemma ascii_simps [simp]: "ascii [] = []" "ascii (c # cs) = of_char c # ascii cs"
  by (simp_all add: ascii_def)

lemma ascii_append: "ascii (xs @ ys) = ascii xs @ ascii ys"
  by (simp add: ascii_def)

lemma bind_err_simps [simp]: "bind_err (Inl e) f = Inl e" "bind_err (Inr x) f = f x"
  by (simp_all add: bind_err_def)

lemma succeeds_simps [simp]: "succeeds (Inr x)" "\<not> succeeds (Inl e)"
  by (simp_all add: succeeds_def)

lemma succeeds_iff: "succeeds m \<longleftrightarrow> (\<exists>x. m = Inr x)"
  by (cases m) simp_all

subsection \<open>UTF-8 encoding\<close>

lemma utf8_char_ok:
  "\<not> is_surrogate c \<Longrightarrow> \<exists>bs. utf8_char c = Inr bs \<and> length bs = utf8_width c"
  by (simp add: utf8_char_def utf8_width_def is_surrogate_def)

lemma utf8_char_surrogate: "is_surrogate c \<Longrightarrow> utf8_char c = Inl UnicodeEncodeError"
  by (simp add: utf8_char_def is_surrogate_def)

lemma encode_utf8_encodable:
  "encodable s \<Longrightarrow> \<exists>bs. encode_utf8 s = Inr bs \<and> length bs = utf8_length s"
proof (induction s)
  case Nil
  then show ?case by (simp add: utf8_length_def)
next
  case (Cons c cs)
  then have c: "\<not> is_surrogate c" and cs: "encodable cs"
    by (simp_all add: encodable_def)
  from utf8_char_ok [OF c] obtain bs where bs: "utf8_char c = Inr bs" "length bs = utf8_width c"
    by blast
  from Cons.IH [OF cs] obtain rest
    where rest: "encode_utf8 cs = Inr rest" "length rest = utf8_length cs"
    by blast
  from bs rest show ?case by (simp add: utf8_length_def)
qed

lemma encode_utf8_not_encodable:
  "\<not> encodable s \<Longrightarrow> encode_utf8 s = Inl UnicodeEncodeError"
proof (induction s)
  case Nil
  then show ?case by (simp add: encodable_def)
next
  case (Cons c cs)
  show ?case
  proof (cases "is_surrogate c")
    case True
    then show ?thesis by (simp add: utf8_char_surrogate)
  next
    case False
    with Cons.prems have "\<not> encodable cs" by (simp add: encodable_def)
    with Cons.IH have "encode_utf8 cs = Inl UnicodeEncodeError" by simp
    moreover from utf8_char_ok [OF False] obtain bs where "utf8_char c = Inr bs" by blast
    ultimately show ?thesis by simp
  qed
qed

lemma php_serialize_string_eq:
  "php_serialize_string s =
     (if encodable s then Inr (spec_encode_text s) else Inl UnicodeEncodeError)"
proof (cases "encodable s")
  case True
  from encode_utf8_encodable [OF True] obtain bs
    where "encode_utf8 s = Inr bs" "length bs = utf8_length s" by blast
  with True show ?thesis by (simp add: php_serialize_string_def spec_encode_text_def)
next
  case False
  then show ?thesis by (simp add: php_serialize_string_def encode_utf8_not_encodable)
qed

lemma encodable_append [simp]: "encodable (xs @ ys) \<longleftrightarrow> encodable xs \<and> encodable ys"
  by (simp add: encodable_def)

lemma encodable_Nil [simp]: "encodable []"
  by (simp add: encodable_def)

lemma encodable_Cons [simp]: "encodable (c # cs) \<longleftrightarrow> \<not> is_surrogate c \<and> encodable cs"
  by (simp add: encodable_def)

lemma encodable_small: "\<forall>c \<in> set s. c < 256 \<Longrightarrow> encodable s"
  by (induction s) (auto simp: is_surrogate_def)

lemma ascii_small: "\<forall>c \<in> set (ascii s). c < 256"
proof -
  have "(of_char c :: nat) < 256" for c
    by (simp add: of_char_def)
  then show ?thesis by (auto simp: ascii_def)
qed

lemma encodable_ascii [simp]: "encodable (ascii s)"
  by (rule encodable_small) (rule ascii_small)

lemma str_nat_small: "\<forall>c \<in> set (str_nat n). c < 256"
  by (induction n rule: str_nat.induct) (subst str_nat.simps, auto)

lemma encodable_str_nat [simp]: "encodable (str_nat n)"
  by (rule encodable_small) (rule str_nat_small)

lemma encodable_str_int [simp]: "encodable (str_int i)"
  by (simp add: str_int_def is_surrogate_def)

lemma utf8_width_pos: "1 \<le> utf8_width c"
  by (simp add: utf8_width_def)

lemma length_le_utf8_length: "length s \<le> utf8_length s"
proof (induction s)
  case Nil
  show ?case by (simp add: utf8_length_def)
next
  case (Cons c cs)
  with utf8_width_pos [of c] show ?case by (simp add: utf8_length_def)
qed

lemma utf8_length_append: "utf8_length (xs @ ys) = utf8_length xs + utf8_length ys"
  by (simp add: utf8_length_def)

section \<open>The text encoding\<close>

text \<open>
  Claim C1, as the code has it: for every string \<open>s\<close> that holds no surrogate code point
  (every string that has a UTF-8 encoding), \<open>php_serialize_string s\<close> returns the tag
  \<open>s:\<close>, the UTF-8 byte length of \<open>s\<close> in decimal, a colon, and \<open>s\<close> itself, unescaped,
  between two literal double quotes. The byte length is never below the character count.
\<close>

theorem php_serialize_string_format:
  assumes "encodable s"
  shows "php_serialize_string s =
           Inr (ascii ''s:'' @ str_nat (utf8_length s) @ ascii '':'' @ dquote @ s @ dquote) \<and>
         length s \<le> utf8_length s"
  using assms
  by (simp add: php_serialize_string_eq spec_encode_text_def length_le_utf8_length)

theorem php_serialize_string_format_witness:
  "encodable (euro @ ascii '' 20'') \<and>
   php_serialize_string (euro @ ascii '' 20'') =
     Inr (ascii ''s:6:'' @ dquote @ euro @ ascii '' 20'' @ dquote) \<and>
   length (euro @ ascii '' 20'') = 4"
  using php_serialize_string_format [of "euro @ ascii '' 20''"]
  by (simp add: utf8_length_def utf8_width_def str_nat.simps is_surrogate_def)

text \<open>
  On a string with a surrogate code point, which a Python \<open>str\<close> can hold, the encoder
  raises instead of returning.
\<close>

theorem php_serialize_string_surrogate_counterexample:
  "php_serialize_string [0xD800] = Inl UnicodeEncodeError"
  by (simp add: php_serialize_string_def utf8_char_def)

section \<open>Escaping and statement rendering\<close>

lemma replace_char_append:
  "replace_char old new (xs @ ys) = replace_char old new xs @ replace_char old new ys"
  by (induction xs) simp_all

lemma escape_sql_string_chars: "escape_sql_string v = concat (map escape_char v)"
  by (induction v) (simp_all add: escape_sql_string_def escape_char_def replace_char_append)

lemma escape_sql_string_plain:
  "92 \<notin> set k \<Longrightarrow> 39 \<notin> set k \<Longrightarrow> escape_sql_string k = k"
  by (induction k) (auto simp: escape_sql_string_chars escape_char_def)

text \<open>
  Claim C6: \<open>escape_sql_string\<close> replaces backslashes first and single quotes second, so
  every backslash of the input becomes two backslashes, every single quote becomes a
  backslash and a quote, and no backslash that escapes a quote is escaped again. The
  input \<open>O'Brien\\<close> escapes to \<open>O\'Brien\\\<close>; replacing quotes first would give another
  text.
\<close>

theorem escape_sql_string_order:
  "escape_sql_string v =
     replace_char 39 (backslash @ squote) (replace_char 92 (backslash @ backslash) v) \<and>
   escape_sql_string v = concat (map escape_char v) \<and>
   escape_sql_string obrien =
     ascii ''O'' @ backslash @ squote @ ascii ''Brien'' @ backslash @ backslash \<and>
   replace_char 92 (backslash @ backslash) (replace_char 39 (backslash @ squote) obrien) \<noteq>
     escape_sql_string obrien"
  by (simp add: escape_sql_string_chars [symmetric])
     (simp add: escape_sql_string_def obrien_def)

theorem escape_sql_string_order_witness:
  "escape_sql_string (backslash @ squote) = backslash @ backslash @ backslash @ squote"
  using escape_sql_string_order [of "backslash @ squote"]
  by (simp add: escape_char_def)

lemma generate_insert_query_text:
  "generate_insert_query lib now meta_id eid meta_key meta_value (Some created) =
     statement_head @ str_int meta_id @ ascii '', '' @ str_int eid @ ascii '', '' @
     squote @ meta_key @ squote @ ascii '', '' @
     squote @ escape_sql_string meta_value @ squote @ ascii '', '' @
     squote @ created @ squote @ ascii '', '' @
     squote @ ascii ''0000-00-00 00:00:00'' @ squote @ ascii '');''"
  by (simp add: generate_insert_query_def statement_head_def)

text \<open>
  Claim C5, as the code has it: in every rendered statement the field value is escaped
  (backslash doubled, then single quote escaped) and the field key is embedded as it is.
  For a key without backslash and single quote, the statement is the one that escaping
  the key would give; the sixteen keys of the row builder are such keys.
\<close>

theorem generate_insert_query_escaping:
  "generate_insert_query lib now meta_id eid meta_key meta_value (Some created) =
     statement_head @ str_int meta_id @ ascii '', '' @ str_int eid @ ascii '', '' @
     squote @ meta_key @ squote @ ascii '', '' @
     squote @ escape_sql_string meta_value @ squote @ ascii '', '' @
     squote @ created @ squote @ ascii '', '' @
     squote @ ascii ''0000-00-00 00:00:00'' @ squote @ ascii '');'' \<and>
   (92 \<notin> set meta_key \<and> 39 \<notin> set meta_key \<longrightarrow>
      generate_insert_query lib now meta_id eid meta_key meta_value (Some created) =
      spec_insert_query lib now meta_id eid meta_key meta_value (Some created)) \<and>
   (\<forall>k \<in> set all_field_keys. 92 \<notin> set k \<and> 39 \<notin> set k)"
proof (intro conjI)
  show "\<forall>k \<in> set all_field_keys. 92 \<notin> set k \<and> 39 \<notin> set k"
    by (simp add: all_field_keys_def)
qed (simp_all add: generate_insert_query_text spec_insert_query_def escape_sql_string_plain)

theorem generate_insert_query_escaping_witness:
  "92 \<notin> set (ascii ''name-1'') \<and> 39 \<notin> set (ascii ''name-1'') \<and>
   generate_insert_query ref_lib example_now 6035 668 (ascii ''name-1'') obrien (Some []) =
   spec_insert_query ref_lib example_now 6035 668 (ascii ''name-1'') obrien (Some []) \<and>
   escape_sql_string obrien =
     ascii ''O'' @ backslash @ squote @ ascii ''Brien'' @ backslash @ backslash"
proof -
  have k: "92 \<notin> set (ascii ''name-1'') \<and> 39 \<notin> set (ascii ''name-1'')"
    by simp
  from k generate_insert_query_escaping
    [of ref_lib example_now 6035 668 "ascii ''name-1''" obrien "[]"]
  have g: "generate_insert_query ref_lib example_now 6035 668 (ascii ''name-1'') obrien (Some []) =
    spec_insert_query ref_lib example_now 6035 668 (ascii ''name-1'') obrien (Some [])"
    by blast
  have e: "escape_sql_string obrien =
     ascii ''O'' @ backslash @ squote @ ascii ''Brien'' @ backslash @ backslash"
    by (simp add: escape_sql_string_def obrien_def)
  from k g e show ?thesis by blast
qed

text \<open>A key that holds a single quote is embedded unescaped.\<close>

theorem key_not_escaped_counterexample:
  "generate_insert_query ref_lib example_now 1 1 quoted_key [] (Some []) \<noteq>
   spec_insert_query ref_lib example_now 1 1 quoted_key [] (Some [])"
  by (simp add: generate_insert_query_text spec_insert_query_def quoted_key_def
        escape_sql_string_def)

section \<open>The calculation encoding\<close>

lemma is_surrogate_numeral [simp]:
  "is_surrogate (numeral k) \<longleftrightarrow> (0xD800::nat) \<le> numeral k \<and> (numeral k::nat) \<le> 0xDFFF"
  by (simp add: is_surrogate_def)

lemma trunc_rat_toward_zero:
  "\<bar>rat_of_int (trunc_rat q)\<bar> \<le> \<bar>q\<bar> \<and> \<bar>q - rat_of_int (trunc_rat q)\<bar> < 1"
  unfolding trunc_rat_def by (cases "0 \<le> q") (simp_all, linarith+)

lemma php_serialize_calculation_eq:
  assumes "py_int amount = Inr n" "encodable currency_symbol"
  shows "php_serialize_calculation lib amount currency_symbol =
           Inr (ascii ''a:2:{s:6:'' @ dquote @ ascii ''result'' @ dquote @ ascii '';d:'' @
                num_to_str lib amount @
                ascii '';s:17:'' @ dquote @ ascii ''formatting_result'' @ dquote @ ascii '';'' @
                spec_encode_text (currency_symbol @ ascii '' '' @ str_int n) @ ascii '';}'')"
  using assms by (simp add: php_serialize_calculation_def php_serialize_string_eq)

text \<open>
  Claim C7: when \<open>int(amount)\<close> returns \<open>n\<close> and the currency symbol has a UTF-8 encoding,
  \<open>php_serialize_calculation\<close> returns the two-element aggregate whose \<open>result\<close> is the
  amount as an f-string prints it and whose \<open>formatting_result\<close> is the text encoding of
  the symbol, a space and \<open>n\<close>. For a float amount \<open>n\<close> is the amount truncated toward
  zero: it is no larger in magnitude than the amount and less than one away from it. The
  text of amount 20 with the default symbol has 4 characters and 6 bytes, and its
  encoding carries the length 6.
\<close>

theorem php_serialize_calculation_format:
  assumes "py_int amount = Inr n" "encodable currency_symbol"
  shows "php_serialize_calculation lib amount currency_symbol =
           Inr (ascii ''a:2:{s:6:'' @ dquote @ ascii ''result'' @ dquote @ ascii '';d:'' @
                num_to_str lib amount @
                ascii '';s:17:'' @ dquote @ ascii ''formatting_result'' @ dquote @ ascii '';'' @
                spec_encode_text (currency_symbol @ ascii '' '' @ str_int n) @ ascii '';}'') \<and>
         (\<forall>q. amount = PyFloat (Finite q) \<longrightarrow>
            \<bar>rat_of_int n\<bar> \<le> \<bar>q\<bar> \<and> \<bar>q - rat_of_int n\<bar> < 1) \<and>
         spec_encode_text (euro @ ascii '' 20'') =
           ascii ''s:6:'' @ dquote @ euro @ ascii '' 20'' @ dquote \<and>
         length (euro @ ascii '' 20'') = 4 \<and> utf8_length (euro @ ascii '' 20'') = 6"
proof (intro conjI allI impI)
  fix q assume "amount = PyFloat (Finite q)"
  with assms(1) have n: "n = trunc_rat q" by simp
  show "\<bar>rat_of_int n\<bar> \<le> \<bar>q\<bar>" "\<bar>q - rat_of_int n\<bar> < 1"
    using trunc_rat_toward_zero [of q] by (simp_all add: n)
qed (simp_all add: php_serialize_calculation_eq [OF assms] spec_encode_text_def
       utf8_length_def utf8_width_def str_nat.simps)

theorem php_serialize_calculation_format_witness:
  "py_int (PyFloat (Finite 20)) = Inr 20 \<and> encodable euro \<and>
   php_serialize_calculation ref_lib (PyFloat (Finite 20)) euro =
     Inr (ascii ''a:2:{s:6:'' @ dquote @ ascii ''result'' @ dquote @ ascii '';d:20.0;s:17:'' @
          dquote @ ascii ''formatting_result'' @ dquote @ ascii '';s:6:'' @ dquote @ euro @
          ascii '' 20'' @ dquote @ ascii '';}'') \<and>
   py_int (PyFloat (Finite (83 / 4))) = Inr 20 \<and>
   py_int (PyFloat (Finite (- 83 / 4))) = Inr (- 20)"
proof -
  have h: "py_int (PyFloat (Finite 20)) = Inr 20" "encodable euro"
    by (simp_all add: trunc_rat_def)
  have s: "str_int 20 = ascii ''20''"
    by (simp add: str_int_def str_nat.simps)
  have r: "num_to_str ref_lib (PyFloat (Finite 20)) = ascii ''20.0''"
    by (simp add: num_to_str_def ref_lib_def ref_float_to_str_def trunc_rat_def str_nat.simps)
  have t: "py_int (PyFloat (Finite (83 / 4))) = Inr 20"
      "py_int (PyFloat (Finite (- 83 / 4))) = Inr (- 20)"
    by (simp_all add: trunc_rat_def floor_eq_iff ceiling_eq_iff)
  from php_serialize_calculation_format [OF h, of ref_lib] h t show ?thesis
    by (simp add: s r)
qed

section \<open>The payment encoding\<close>

lemma lit_plus_simps [simp]: "lit_plus p (Inl e) = Inl e" "lit_plus p (Inr s) = Inr (p @ s)"
  by (simp_all add: lit_plus_def)

lemma spec_encode_text_key:
  "spec_encode_text (ascii ''mode'') = ascii ''s:4:'' @ dquote @ ascii ''mode'' @ dquote"
  "spec_encode_text (ascii ''product_name'') =
     ascii ''s:12:'' @ dquote @ ascii ''product_name'' @ dquote"
  "spec_encode_text (ascii ''payment_type'') =
     ascii ''s:12:'' @ dquote @ ascii ''payment_type'' @ dquote"
  "spec_encode_text (ascii ''amount'') = ascii ''s:6:'' @ dquote @ ascii ''amount'' @ dquote"
  "spec_encode_text (ascii ''quantity'') = ascii ''s:8:'' @ dquote @ ascii ''quantity'' @ dquote"
  "spec_encode_text (ascii ''currency'') = ascii ''s:8:'' @ dquote @ ascii ''currency'' @ dquote"
  "spec_encode_text (ascii ''transaction_id'') =
     ascii ''s:14:'' @ dquote @ ascii ''transaction_id'' @ dquote"
  "spec_encode_text (ascii ''transaction_link'') =
     ascii ''s:16:'' @ dquote @ ascii ''transaction_link'' @ dquote"
  "spec_encode_text (ascii ''status'') = ascii ''s:6:'' @ dquote @ ascii ''status'' @ dquote"
  by (simp_all add: spec_encode_text_def utf8_length_def utf8_width_def str_nat.simps)

lemma php_serialize_stripe_eq:
  assumes "encodable transaction_id" "encodable amount" "encodable currency_code"
    "encodable mode" "encodable product_name" "encodable payment_type" "encodable status"
  shows "php_serialize_stripe transaction_id amount currency_code mode product_name
           payment_type status =
         Inr (ascii ''a:9:{'' @
              concat (map spec_pair
                (payment_pairs transaction_id amount currency_code mode product_name
                   payment_type status)) @
              ascii ''}'')"
  using assms
  by (simp add: php_serialize_stripe_def php_serialize_string_eq payment_pairs_def spec_pair_def
        spec_encode_text_key del: ascii_simps)
     (simp add: spec_encode_text_def)

lemma php_serialize_stripe_fails:
  assumes "\<not> (encodable transaction_id \<and> encodable amount \<and> encodable currency_code \<and>
    encodable mode \<and> encodable product_name \<and> encodable payment_type \<and> encodable status)"
  shows "php_serialize_stripe transaction_id amount currency_code mode product_name
           payment_type status = Inl UnicodeEncodeError"
  using assms
  by (auto simp add: php_serialize_stripe_def php_serialize_string_eq)

text \<open>
  Claim C8: when its arguments have UTF-8 encodings, \<open>php_serialize_stripe\<close> returns the
  aggregate with the header count 9 followed by nine key/value pairs, each key and each
  value in the text encoding and each followed by a semicolon. The keys are, in order,
  mode, product_name, payment_type, amount, quantity, currency, transaction_id,
  transaction_link, status; the value of quantity is \<open>1\<close> and the value of
  transaction_link is the dashboard address followed by the transaction id.
\<close>

theorem php_serialize_stripe_format:
  assumes "encodable transaction_id" "encodable amount" "encodable currency_code"
    "encodable mode" "encodable product_name" "encodable payment_type" "encodable status"
  shows "php_serialize_stripe transaction_id amount currency_code mode product_name
           payment_type status =
         Inr (ascii ''a:9:{'' @
              concat (map spec_pair
                (payment_pairs transaction_id amount currency_code mode product_name
                   payment_type status)) @
              ascii ''}'') \<and>
         length (payment_pairs transaction_id amount currency_code mode product_name
                   payment_type status) = 9 \<and>
         map fst (payment_pairs transaction_id amount currency_code mode product_name
                   payment_type status) =
           [ascii ''mode'', ascii ''product_name'', ascii ''payment_type'', ascii ''amount'',
            ascii ''quantity'', ascii ''currency'', ascii ''transaction_id'',
            ascii ''transaction_link'', ascii ''status''] \<and>
         map snd (payment_pairs transaction_id amount currency_code mode product_name
                   payment_type status) =
           [mode, product_name, payment_type, amount, ascii ''1'', currency_code,
            transaction_id, ascii ''https://dashboard.stripe.com/payments/'' @ transaction_id,
            status]"
  by (simp add: php_serialize_stripe_eq [OF assms]) (simp add: payment_pairs_def)

theorem php_serialize_stripe_format_witness:
  \<open>encodable (ascii ''pi_1'') \<and> encodable (ascii ''350.00'') \<and> encodable default_currency \<and>
   encodable default_mode \<and> encodable default_product_name \<and>
   encodable default_payment_type \<and> encodable default_status \<and>
   php_serialize_stripe (ascii ''pi_1'') (ascii ''350.00'') default_currency default_mode
     default_product_name default_payment_type default_status =
   Inr (ascii ''a:9:{s:4:"mode";s:4:"live";s:12:"product_name";s:6:"Plan 1";'' @
        ascii ''s:12:"payment_type";s:8:"One Time";s:6:"amount";s:6:"350.00";'' @
        ascii ''s:8:"quantity";s:1:"1";s:8:"currency";s:3:"EUR";'' @
        ascii ''s:14:"transaction_id";s:4:"pi_1";s:16:"transaction_link";'' @
        ascii ''s:42:"https://dashboard.stripe.com/payments/pi_1";'' @
        ascii ''s:6:"status";s:9:"COMPLETED";}'')\<close>
proof -
  have h: "encodable (ascii ''pi_1'')" "encodable (ascii ''350.00'')"
    "encodable default_currency" "encodable default_mode" "encodable default_product_name"
    "encodable default_payment_type" "encodable default_status"
    by (simp_all add: default_currency_def default_mode_def default_product_name_def
          default_payment_type_def default_status_def del: ascii_simps)
  from php_serialize_stripe_format [OF h] h show ?thesis
    by (simp add: payment_pairs_def spec_pair_def spec_encode_text_def utf8_length_def
          utf8_width_def str_nat.simps default_currency_def default_mode_def
          default_product_name_def default_payment_type_def default_status_def)
qed

section \<open>The row builder and its field table\<close>

lemma queries_append_query [simp]:
  "queries (append_query lib now eid created k v st) =
     queries st @ [generate_insert_query lib now (current_meta_id st) eid k v (Some created)]"
  by (simp add: append_query_def)

lemma current_meta_id_append_query [simp]:
  "current_meta_id (append_query lib now eid created k v st) = current_meta_id st + 1"
  by (simp add: append_query_def)

lemma generate_entry_inserts_eq:
  "generate_entry_inserts lib now a =
     (case entry_rows lib now a of
        Inl e \<Rightarrow> Inl e
      | Inr kvs \<Rightarrow>
          Inr (render_rows lib now (entry_id a) (created_of lib now a) (meta_id_start a) kvs))"
proof -
  let ?sd = "submission_date_of lib now (created_of lib now a)"
  let ?c1 = "php_serialize_calculation lib (PyInt (if t_shirt a then 20 else 0)) euro"
  let ?x = "py_float lib (stripe_amount a)"
  let ?nm = "php_serialize_name (first_name a) (last_name a)"
  let ?sv = "php_serialize_stripe (stripe_transaction_id a) (stripe_amount a) (currency a)
                 default_mode default_product_name default_payment_type default_status"
  note defs = generate_entry_inserts_def entry_rows_def created_of_def [symmetric] Let_def
  show ?thesis
  proof (cases ?sd)
    case Inl
    then show ?thesis by (simp add: defs)
  next
    case sd: (Inr sd)
    show ?thesis
    proof (cases ?c1)
      case Inl
      with sd show ?thesis by (simp add: defs del: if_split cong: if_cong)
    next
      case c1: (Inr c1)
      show ?thesis
      proof (cases ?x)
        case Inl
        with sd c1 show ?thesis by (simp add: defs)
      next
        case x: (Inr x)
        show ?thesis
        proof (cases "php_serialize_calculation lib (PyFloat x) euro")
          case Inl
          with sd c1 x show ?thesis by (simp add: defs)
        next
          case c2: (Inr c2)
          show ?thesis
          proof (cases ?nm)
            case Inl
            with sd c1 x c2 show ?thesis by (simp add: defs)
          next
            case nm: (Inr nm)
            show ?thesis
            proof (cases ?sv)
              case Inl
              with sd c1 x c2 nm show ?thesis by (simp add: defs)
            next
              case sv: (Inr sv)
              with sd c1 x c2 nm show ?thesis
                by (cases "t_shirt a"; cases "party a"; cases "t_shirt_size a")
                   (simp_all add: defs field_table_def included_def render_rows_def
                      render_row_def size_supplied_def size_text_def del: ascii_simps)
            qed
          qed
        qed
      qed
    qed
  qed
qed

lemma length_number_rows [simp]: "length (number_rows i rs) = length rs"
  by (induction rs arbitrary: i) simp_all

lemma nth_number_rows: "j < length rs \<Longrightarrow> number_rows i rs ! j = (i + int j, rs ! j)"
proof (induction rs arbitrary: i j)
  case Nil
  then show ?case by simp
next
  case (Cons r rs)
  show ?case
  proof (cases j)
    case 0
    then show ?thesis by simp
  next
    case (Suc k)
    with Cons.prems have "k < length rs" by simp
    from Cons.IH [OF this, of "i + 1"] Suc show ?thesis by simp
  qed
qed

lemma length_render_rows [simp]: "length (render_rows lib now eid created start kvs) = length kvs"
  by (simp add: render_rows_def)

lemma nth_render_rows:
  "j < length kvs \<Longrightarrow>
   render_rows lib now eid created start kvs ! j =
     generate_insert_query lib now (start + int j) eid (fst (kvs ! j)) (snd (kvs ! j))
       (Some created)"
  by (simp add: render_rows_def render_row_def nth_number_rows)

lemma emitted_render_rows:
  "emitted lib now a (map fst kvs) (map snd kvs)
     (render_rows lib now (entry_id a) (created_of lib now a) (meta_id_start a) kvs)"
  by (simp add: emitted_def nth_render_rows)

lemma entry_rows_keys:
  assumes "entry_rows lib now a = Inr kvs"
  shows "map fst kvs = included (field_keys a)"
  using assms
  by (auto simp add: entry_rows_def bind_err_def included_def field_table_def field_keys_def
        simp del: ascii_simps split: sum.splits)

lemma generate_entry_inserts_emitted:
  assumes "generate_entry_inserts lib now a = Inr qs"
  shows "\<exists>vs. emitted lib now a (included (field_keys a)) vs qs"
proof -
  from assms obtain kvs where kvs: "entry_rows lib now a = Inr kvs"
    and qs: "qs = render_rows lib now (entry_id a) (created_of lib now a) (meta_id_start a) kvs"
    by (auto simp add: generate_entry_inserts_eq split: sum.splits)
  from emitted_render_rows [of lib now a kvs] entry_rows_keys [OF kvs] qs
  show ?thesis by auto
qed

lemma included_keys_plain:
  "\<not> t_shirt a \<Longrightarrow> \<not> party a \<Longrightarrow> included (field_keys a) = unconditional_keys"
  by (simp add: included_def field_keys_def unconditional_keys_def del: ascii_simps)

lemma included_keys_all:
  "t_shirt a \<Longrightarrow> size_supplied a \<Longrightarrow> included (field_keys a) = all_field_keys"
  by (simp add: included_def field_keys_def all_field_keys_def del: ascii_simps)

lemma length_included_keys:
  "length (included (field_keys a)) =
     12 + (if t_shirt a then 2 else 0) + (if t_shirt a \<and> size_supplied a then 1 else 0) +
     (if party a \<or> t_shirt a then 1 else 0)"
  by (simp add: included_def field_keys_def del: ascii_simps)

section \<open>When generation returns\<close>

lemma submission_date_of_succeeds:
  "succeeds (submission_date_of lib now (created_of lib now a)) \<longleftrightarrow> timestamp_ok lib now a"
  by (auto simp add: submission_date_of_def timestamp_ok_def split: option.splits)

lemma submission_date_of_error:
  "\<not> timestamp_ok lib now a \<Longrightarrow>
   submission_date_of lib now (created_of lib now a) = Inl ValueError"
  by (auto simp add: submission_date_of_def timestamp_ok_def split: option.splits)

lemma php_serialize_calculation_int:
  "\<exists>c. php_serialize_calculation lib (PyInt i) euro = Inr c"
  by (simp add: php_serialize_calculation_def php_serialize_string_eq)

lemma php_serialize_calculation_float_succeeds:
  "succeeds (php_serialize_calculation lib (PyFloat x) euro) \<longleftrightarrow> (\<exists>q. x = Finite q)"
  by (cases x) (simp_all add: php_serialize_calculation_def php_serialize_string_eq)

lemma php_serialize_name_succeeds:
  "succeeds (php_serialize_name f l) \<longleftrightarrow> encodable f \<and> encodable l"
  by (simp add: php_serialize_name_def php_serialize_string_eq)

lemma encodable_defaults [simp]:
  "encodable default_mode" "encodable default_product_name" "encodable default_payment_type"
  "encodable default_status" "encodable default_currency"
  by (simp_all add: default_mode_def default_product_name_def default_payment_type_def
        default_status_def default_currency_def del: ascii_simps)

lemma php_serialize_stripe_succeeds:
  "succeeds (php_serialize_stripe tid amount cur default_mode default_product_name
      default_payment_type default_status) \<longleftrightarrow>
   encodable tid \<and> encodable amount \<and> encodable cur"
proof (cases "encodable tid \<and> encodable amount \<and> encodable cur")
  case True
  then show ?thesis by (simp add: php_serialize_stripe_eq)
next
  case False
  then show ?thesis by (simp add: php_serialize_stripe_fails)
qed

lemma amount_ok_iff:
  "amount_ok lib a \<longleftrightarrow> (\<exists>q. py_float lib (stripe_amount a) = Inr (Finite q))"
  by (auto simp add: amount_ok_def py_float_def split: option.splits pyfloat.splits)

lemma entry_rows_succeeds:
  "succeeds (entry_rows lib now a) \<longleftrightarrow>
     timestamp_ok lib now a \<and> amount_ok lib a \<and>
     encodable (first_name a) \<and> encodable (last_name a) \<and>
     encodable (stripe_transaction_id a) \<and> encodable (stripe_amount a) \<and>
     encodable (currency a)"
proof (cases "submission_date_of lib now (created_of lib now a)")
  case (Inl e)
  with submission_date_of_succeeds [of lib now a] show ?thesis
    by (simp add: entry_rows_def)
next
  case sd: (Inr sd)
  with submission_date_of_succeeds [of lib now a] have ts: "timestamp_ok lib now a" by simp
  from php_serialize_calculation_int obtain c1
    where c1: "php_serialize_calculation lib (PyInt (if t_shirt a then 20 else 0)) euro = Inr c1"
    by blast
  show ?thesis
  proof (cases "py_float lib (stripe_amount a)")
    case (Inl e)
    with sd c1 show ?thesis by (simp add: entry_rows_def amount_ok_iff)
  next
    case x: (Inr x)
    show ?thesis
    proof (cases "php_serialize_calculation lib (PyFloat x) euro")
      case (Inl e)
      with php_serialize_calculation_float_succeeds [of lib x] have "\<nexists>q. x = Finite q"
        by simp
      with sd c1 x Inl show ?thesis by (simp add: entry_rows_def amount_ok_iff)
    next
      case c2: (Inr c2)
      with php_serialize_calculation_float_succeeds [of lib x] have "\<exists>q. x = Finite q"
        by simp
      with x have am: "amount_ok lib a" by (simp add: amount_ok_iff)
      show ?thesis
      proof (cases "php_serialize_name (first_name a) (last_name a)")
        case (Inl e)
        with php_serialize_name_succeeds [of "first_name a" "last_name a"]
        have "\<not> (encodable (first_name a) \<and> encodable (last_name a))" by simp
        with sd c1 x c2 Inl show ?thesis by (auto simp add: entry_rows_def)
      next
        case nm: (Inr nm)
        with php_serialize_name_succeeds [of "first_name a" "last_name a"]
        have en: "encodable (first_name a) \<and> encodable (last_name a)" by simp
        from php_serialize_stripe_succeeds
          [of "stripe_transaction_id a" "stripe_amount a" "currency a"]
          sd c1 x c2 nm ts am en
        show ?thesis
          by (cases "php_serialize_stripe (stripe_transaction_id a) (stripe_amount a)
                (currency a) default_mode default_product_name default_payment_type
                default_status") (simp_all add: entry_rows_def)
      qed
    qed
  qed
qed

lemma generate_entry_inserts_succeeds:
  "succeeds (generate_entry_inserts lib now a) \<longleftrightarrow> succeeds (entry_rows lib now a)"
  by (simp add: generate_entry_inserts_eq split: sum.splits)

lemma entry_rows_bad_amount:
  assumes "timestamp_ok lib now a" "float_of_str lib (stripe_amount a) = None"
  shows "entry_rows lib now a = Inl ValueError"
proof -
  from assms(1) submission_date_of_succeeds [of lib now a]
  obtain sd where "submission_date_of lib now (created_of lib now a) = Inr sd"
    by (auto simp add: succeeds_iff)
  moreover from php_serialize_calculation_int obtain c1
    where "php_serialize_calculation lib (PyInt (if t_shirt a then 20 else 0)) euro = Inr c1"
    by blast
  ultimately show ?thesis
    using assms(2) by (simp add: entry_rows_def py_float_def)
qed

section \<open>Row identifiers, conditional rows and failure modes\<close>

lemma example_created:
  "created_of ref_lib example_now example_entry = ascii ''2025-07-21 09:30:05''"
  "created_of ref_lib example_now plain_entry = ascii ''2025-06-15 10:30:00''"
  "created_of ref_lib example_now bad_date_entry = ascii ''15/06/2025''"
  by (simp_all add: created_of_def example_entry_def plain_entry_def bad_date_entry_def
        ref_lib_def ref_strftime_ts_def example_now_def zfill_def str_nat.simps)

lemma example_timestamp_ok:
  "timestamp_ok ref_lib example_now example_entry"
  "timestamp_ok ref_lib example_now plain_entry"
  "\<not> timestamp_ok ref_lib example_now bad_date_entry"
  by (simp_all add: timestamp_ok_def example_created)
     (simp_all add: ref_lib_def ref_strptime_ts_def number_of_digits_def valid_datetime_def
        days_in_month_def)

lemma example_amount_ok:
  "amount_ok ref_lib example_entry" "amount_ok ref_lib plain_entry"
  "amount_ok ref_lib bad_date_entry"
  by (simp_all add: amount_ok_def example_entry_def plain_entry_def bad_date_entry_def
        ref_lib_def ref_float_of_str_def number_of_digits_def)

lemma example_encodable:
  "encodable (first_name example_entry)" "encodable (last_name example_entry)"
  "encodable (stripe_transaction_id example_entry)" "encodable (stripe_amount example_entry)"
  "encodable (currency example_entry)"
  "encodable (first_name plain_entry)" "encodable (last_name plain_entry)"
  "encodable (stripe_transaction_id plain_entry)" "encodable (stripe_amount plain_entry)"
  "encodable (currency plain_entry)"
  by (simp_all add: example_entry_def plain_entry_def del: ascii_simps)

lemma example_succeeds:
  "succeeds (generate_entry_inserts ref_lib example_now example_entry)"
  "succeeds (generate_entry_inserts ref_lib example_now plain_entry)"
  by (simp_all add: generate_entry_inserts_succeeds entry_rows_succeeds example_timestamp_ok
        example_amount_ok example_encodable)

lemma example_flags:
  "t_shirt example_entry" "party example_entry" "size_supplied example_entry"
  "\<not> t_shirt plain_entry" "\<not> party plain_entry"
  "entry_id example_entry = 668" "meta_id_start example_entry = 6031"
  "entry_id plain_entry = 669" "meta_id_start plain_entry = 7000"
  by (simp_all add: example_entry_def plain_entry_def size_supplied_def)

text \<open>
  Claim C2: for every entry and every starting identifier on which generation returns,
  the statements are the included fields of the field table, in table order, and the
  statement at position \<open>i\<close> carries the identifier \<open>meta_id_start + i\<close>. So every
  included row takes exactly one identifier, an excluded row takes none, and the
  identifiers are contiguous from the starting value: twelve rows are always there, two
  more with the t-shirt, one more with a size, one more with the party or the t-shirt.
\<close>

theorem row_identifiers_contiguous:
  assumes "generate_entry_inserts lib now a = Inr qs"
  shows "(\<exists>vs. emitted lib now a (included (field_keys a)) vs qs) \<and>
         length qs =
           12 + (if t_shirt a then 2 else 0) + (if t_shirt a \<and> size_supplied a then 1 else 0) +
           (if party a \<or> t_shirt a then 1 else 0)"
proof -
  from generate_entry_inserts_emitted [OF assms] obtain vs
    where vs: "emitted lib now a (included (field_keys a)) vs qs" by blast
  then have "length qs = length (included (field_keys a))" by (simp add: emitted_def)
  with vs show ?thesis by (auto simp add: length_included_keys)
qed

theorem row_identifiers_contiguous_witness:
  "\<exists>qs. generate_entry_inserts ref_lib example_now plain_entry = Inr qs \<and>
     length qs = 12 \<and>
     (\<exists>v. qs ! 0 = generate_insert_query ref_lib example_now 7000 669 (ascii ''hidden-1'') v
                     (Some (ascii ''2025-06-15 10:30:00''))) \<and>
     (\<exists>v. qs ! 11 = generate_insert_query ref_lib example_now 7011 669 (ascii ''stripe-ocs-1'') v
                     (Some (ascii ''2025-06-15 10:30:00'')))"
proof -
  from example_succeeds(2) obtain qs
    where qs: "generate_entry_inserts ref_lib example_now plain_entry = Inr qs"
    by (auto simp add: succeeds_iff)
  from row_identifiers_contiguous [OF qs] obtain vs
    where vs: "emitted ref_lib example_now plain_entry (included (field_keys plain_entry)) vs qs"
      and len: "length qs = 12"
    by (auto simp add: example_flags)
  have keys: "included (field_keys plain_entry) = unconditional_keys"
    by (simp add: included_keys_plain example_flags)
  from vs have "qs ! 0 = generate_insert_query ref_lib example_now 7000 669 (ascii ''hidden-1'')
      (vs ! 0) (Some (ascii ''2025-06-15 10:30:00''))"
    and "qs ! 11 = generate_insert_query ref_lib example_now 7011 669 (ascii ''stripe-ocs-1'')
      (vs ! 11) (Some (ascii ''2025-06-15 10:30:00''))"
    unfolding keys emitted_def
    by (simp_all add: unconditional_keys_def example_flags example_created del: ascii_simps)
  with qs len show ?thesis by blast
qed

text \<open>
  Claim C9: when generation returns, an entry without t-shirt and without party has
  exactly the twelve unconditional rows, without \<open>select-2\<close>, \<open>select-3\<close>, \<open>select-4\<close>
  and \<open>checkbox-2\<close>, numbered from the starting identifier; an entry with the t-shirt and
  a non-empty size has all sixteen rows in the fixed field order, numbered from the
  starting identifier to the starting identifier plus 15.
\<close>

theorem conditional_inclusion:
  assumes "generate_entry_inserts lib now a = Inr qs"
  shows "(\<not> t_shirt a \<and> \<not> party a \<longrightarrow>
            (\<exists>vs. emitted lib now a unconditional_keys vs qs) \<and> length qs = 12) \<and>
         (t_shirt a \<and> size_supplied a \<longrightarrow>
            (\<exists>vs. emitted lib now a all_field_keys vs qs) \<and> length qs = 16) \<and>
         unconditional_keys =
           [ascii ''hidden-1'', ascii ''hidden-2'', ascii ''calculation-1'',
            ascii ''calculation-2'', ascii ''name-1'', ascii ''email-1'', ascii ''phone-1'',
            ascii ''select-1'', ascii ''text-3'', ascii ''date-1'', ascii ''select-5'',
            ascii ''stripe-ocs-1''] \<and>
         all_field_keys =
           [ascii ''hidden-1'', ascii ''hidden-2'', ascii ''calculation-1'',
            ascii ''calculation-2'', ascii ''name-1'', ascii ''email-1'', ascii ''phone-1'',
            ascii ''select-1'', ascii ''text-3'', ascii ''date-1'', ascii ''select-2'',
            ascii ''select-3'', ascii ''select-4'', ascii ''select-5'', ascii ''checkbox-2'',
            ascii ''stripe-ocs-1'']"
proof -
  from generate_entry_inserts_emitted [OF assms] obtain vs
    where vs: "emitted lib now a (included (field_keys a)) vs qs" by blast
  then have len: "length qs = length (included (field_keys a))" by (simp add: emitted_def)
  have "(\<exists>vs. emitted lib now a unconditional_keys vs qs) \<and> length qs = 12"
    if "\<not> t_shirt a" "\<not> party a"
    using vs len that included_keys_plain [of a]
    by (auto simp add: unconditional_keys_def simp del: ascii_simps)
  moreover have "(\<exists>vs. emitted lib now a all_field_keys vs qs) \<and> length qs = 16"
    if "t_shirt a" "size_supplied a"
    using vs len that included_keys_all [of a]
    by (auto simp add: all_field_keys_def simp del: ascii_simps)
  ultimately show ?thesis
    by (simp add: unconditional_keys_def all_field_keys_def del: ascii_simps)
qed

theorem conditional_inclusion_witness:
  "(\<exists>qs vs. generate_entry_inserts ref_lib example_now plain_entry = Inr qs \<and>
      emitted ref_lib example_now plain_entry unconditional_keys vs qs \<and> length qs = 12) \<and>
   (\<exists>qs vs. generate_entry_inserts ref_lib example_now example_entry = Inr qs \<and>
      emitted ref_lib example_now example_entry all_field_keys vs qs \<and> length qs = 16 \<and>
      qs ! 15 = generate_insert_query ref_lib example_now 6046 668 (ascii ''stripe-ocs-1'')
                  (vs ! 15) (Some (ascii ''2025-07-21 09:30:05'')))"
proof -
  from example_succeeds obtain qs1 qs2
    where qs1: "generate_entry_inserts ref_lib example_now plain_entry = Inr qs1"
      and qs2: "generate_entry_inserts ref_lib example_now example_entry = Inr qs2"
    by (auto simp add: succeeds_iff)
  from conditional_inclusion [OF qs1] obtain vs1
    where vs1: "emitted ref_lib example_now plain_entry unconditional_keys vs1 qs1"
      "length qs1 = 12"
    by (auto simp add: example_flags)
  from conditional_inclusion [OF qs2] obtain vs2
    where vs2: "emitted ref_lib example_now example_entry all_field_keys vs2 qs2"
      "length qs2 = 16"
    by (auto simp add: example_flags)
  from vs2(1) have "qs2 ! 15 =
    generate_insert_query ref_lib example_now 6046 668 (ascii ''stripe-ocs-1'')
      (vs2 ! 15) (Some (ascii ''2025-07-21 09:30:05''))"
    unfolding emitted_def
    by (simp add: all_field_keys_def example_flags example_created del: ascii_simps)
  with qs1 qs2 vs1 vs2 show ?thesis by blast
qed

lemma length_str_nat_le: "0 < k \<Longrightarrow> n < 10 ^ k \<Longrightarrow> length (str_nat n) \<le> k"
proof (induction k arbitrary: n)
  case 0
  then show ?case by simp
next
  case (Suc k)
  show ?case
  proof (cases "n < 10")
    case True
    then show ?thesis by (subst str_nat.simps) simp
  next
    case False
    with Suc.prems have k: "0 < k" by (cases k) simp_all
    from Suc.prems have "n div 10 < 10 ^ k" by (simp add: less_mult_imp_div_less mult.commute)
    from Suc.IH [OF k this] False show ?thesis by (subst str_nat.simps) simp
  qed
qed

lemma printable_small: "\<bar>i\<bar> < 10 ^ 18 \<Longrightarrow> printable i"
proof -
  assume "\<bar>i\<bar> < 10 ^ 18"
  then have "nat \<bar>i\<bar> < 10 ^ 18" by (simp add: nat_less_iff)
  then have "length (str_nat (nat \<bar>i\<bar>)) \<le> 18" by (intro length_str_nat_le) simp_all
  then show ?thesis by (simp add: printable_def int_max_str_digits_def)
qed

lemma ids_printable_small:
  "\<bar>entry_id a\<bar> < 10 ^ 17 \<Longrightarrow> \<bar>meta_id_start a\<bar> < 10 ^ 17 \<Longrightarrow> ids_printable a"
  unfolding ids_printable_def list_all_iff
proof (intro conjI ballI)
  assume e: "\<bar>entry_id a\<bar> < 10 ^ 17" and m: "\<bar>meta_id_start a\<bar> < 10 ^ 17"
  from e show "printable (entry_id a)" by (intro printable_small) simp
  fix k assume "k \<in> set [0..<16]"
  then have "k < 16" by simp
  with m show "printable (meta_id_start a + int k)" by (intro printable_small) simp
qed

lemma ids_printable_update [simp]:
  "ids_printable (a\<lparr>email := e, phone := p, grade := g, dojo_name := d, birth_date := b,
      gender := ge, party := pa, t_shirt := ts, t_shirt_size := sz\<rparr>) = ids_printable a"
  by (simp add: ids_printable_def)

lemma php_serialize_name_error:
  "\<not> (encodable f \<and> encodable l) \<Longrightarrow> php_serialize_name f l = Inl UnicodeEncodeError"
  by (auto simp add: php_serialize_name_def php_serialize_string_eq)

lemma php_serialize_calculation_finite:
  "\<exists>c. php_serialize_calculation lib (PyFloat (Finite q)) euro = Inr c"
  by (simp add: php_serialize_calculation_def php_serialize_string_eq)

lemma entry_rows_amount_error:
  assumes "timestamp_ok lib now a"
  shows "float_of_str lib (stripe_amount a) = Some PosInf \<Longrightarrow>
           entry_rows lib now a = Inl OverflowError"
    and "float_of_str lib (stripe_amount a) = Some NegInf \<Longrightarrow>
           entry_rows lib now a = Inl OverflowError"
    and "float_of_str lib (stripe_amount a) = Some NaN \<Longrightarrow>
           entry_rows lib now a = Inl ValueError"
proof -
  from assms submission_date_of_succeeds [of lib now a]
  obtain sd where sd: "submission_date_of lib now (created_of lib now a) = Inr sd"
    by (auto simp add: succeeds_iff)
  from php_serialize_calculation_int obtain c1
    where c1: "php_serialize_calculation lib (PyInt (if t_shirt a then 20 else 0)) euro = Inr c1"
    by blast
  from sd c1 show "float_of_str lib (stripe_amount a) = Some PosInf \<Longrightarrow>
           entry_rows lib now a = Inl OverflowError"
    and "float_of_str lib (stripe_amount a) = Some NegInf \<Longrightarrow>
           entry_rows lib now a = Inl OverflowError"
    and "float_of_str lib (stripe_amount a) = Some NaN \<Longrightarrow>
           entry_rows lib now a = Inl ValueError"
    by (simp_all add: entry_rows_def py_float_def php_serialize_calculation_def)
qed

lemma entry_rows_unencodable:
  assumes "timestamp_ok lib now a" "amount_ok lib a"
    "\<not> (encodable (first_name a) \<and> encodable (last_name a) \<and>
        encodable (stripe_transaction_id a) \<and> encodable (stripe_amount a) \<and>
        encodable (currency a))"
  shows "entry_rows lib now a = Inl UnicodeEncodeError"
proof -
  from assms(1) submission_date_of_succeeds [of lib now a]
  obtain sd where sd: "submission_date_of lib now (created_of lib now a) = Inr sd"
    by (auto simp add: succeeds_iff)
  from php_serialize_calculation_int obtain c1
    where c1: "php_serialize_calculation lib (PyInt (if t_shirt a then 20 else 0)) euro = Inr c1"
    by blast
  from assms(2) obtain q where x: "py_float lib (stripe_amount a) = Inr (Finite q)"
    by (auto simp add: amount_ok_iff)
  from php_serialize_calculation_finite obtain c2
    where c2: "php_serialize_calculation lib (PyFloat (Finite q)) euro = Inr c2" by blast
  show ?thesis
  proof (cases "encodable (first_name a) \<and> encodable (last_name a)")
    case False
    from php_serialize_name_error [OF False] sd c1 x c2 show ?thesis
      by (simp add: entry_rows_def)
  next
    case True
    with php_serialize_name_succeeds [of "first_name a" "last_name a"]
    obtain nm where nm: "php_serialize_name (first_name a) (last_name a) = Inr nm"
      by (auto simp add: succeeds_iff)
    from True assms(3)
    have "\<not> (encodable (stripe_transaction_id a) \<and> encodable (stripe_amount a) \<and>
      encodable (currency a) \<and> encodable default_mode \<and> encodable default_product_name \<and>
      encodable default_payment_type \<and> encodable default_status)" by simp
    from php_serialize_stripe_fails [OF this] sd c1 x c2 nm show ?thesis
      by (simp add: entry_rows_def)
  qed
qed

text \<open>
  Claim C4, as the code has it: for an entry whose entry identifier and row identifiers
  are printable, generation returns exactly when the creation timestamp is empty or
  parses in the format \<open>%Y-%m-%d %H:%M:%S\<close> (the formatted current time stands for a
  timestamp that is not supplied), the amount string converts to a finite float, and
  first name, last name, transaction id, amount and currency have UTF-8 encodings.
  Email, phone, grade, dojo name, birth date, gender, size and the two flags accept any
  text and value. An entry whose timestamp does not parse fails with \<open>ValueError\<close>; with a
  good timestamp, an amount that does not convert or converts to a NaN fails with
  \<open>ValueError\<close> and one that converts to an infinity with \<open>OverflowError\<close>; with a good
  timestamp and amount, a text without UTF-8 encoding fails with \<open>UnicodeEncodeError\<close>.
\<close>

theorem generation_failure_modes:
  assumes "ids_printable a"
  shows
  "(succeeds (generate_entry_inserts lib now a) \<longleftrightarrow>
      timestamp_ok lib now a \<and> amount_ok lib a \<and>
      encodable (first_name a) \<and> encodable (last_name a) \<and>
      encodable (stripe_transaction_id a) \<and> encodable (stripe_amount a) \<and>
      encodable (currency a)) \<and>
   (succeeds (generate_entry_inserts lib now
       (a\<lparr>email := e, phone := p, grade := g, dojo_name := d, birth_date := b, gender := ge,
          party := pa, t_shirt := ts, t_shirt_size := sz\<rparr>)) \<longleftrightarrow>
    succeeds (generate_entry_inserts lib now a)) \<and>
   (timestamp_ok lib now a \<and> float_of_str lib (stripe_amount a) = None \<longrightarrow>
      generate_entry_inserts lib now a = Inl ValueError) \<and>
   (\<not> timestamp_ok lib now a \<longrightarrow> generate_entry_inserts lib now a = Inl ValueError) \<and>
   (timestamp_ok lib now a \<and> float_of_str lib (stripe_amount a) = Some NaN \<longrightarrow>
      generate_entry_inserts lib now a = Inl ValueError) \<and>
   (timestamp_ok lib now a \<and>
    (float_of_str lib (stripe_amount a) = Some PosInf \<or>
     float_of_str lib (stripe_amount a) = Some NegInf) \<longrightarrow>
      generate_entry_inserts lib now a = Inl OverflowError) \<and>
   (timestamp_ok lib now a \<and> amount_ok lib a \<and>
    \<not> (encodable (first_name a) \<and> encodable (last_name a) \<and>
       encodable (stripe_transaction_id a) \<and> encodable (stripe_amount a) \<and>
       encodable (currency a)) \<longrightarrow>
      generate_entry_inserts lib now a = Inl UnicodeEncodeError)"
proof (intro conjI impI)
  show "succeeds (generate_entry_inserts lib now a) \<longleftrightarrow>
      timestamp_ok lib now a \<and> amount_ok lib a \<and>
      encodable (first_name a) \<and> encodable (last_name a) \<and>
      encodable (stripe_transaction_id a) \<and> encodable (stripe_amount a) \<and>
      encodable (currency a)"
    by (simp add: generate_entry_inserts_succeeds entry_rows_succeeds)
  show "succeeds (generate_entry_inserts lib now
       (a\<lparr>email := e, phone := p, grade := g, dojo_name := d, birth_date := b, gender := ge,
          party := pa, t_shirt := ts, t_shirt_size := sz\<rparr>)) \<longleftrightarrow>
    succeeds (generate_entry_inserts lib now a)"
    by (simp add: generate_entry_inserts_succeeds entry_rows_succeeds timestamp_ok_def
          amount_ok_def created_of_def)
  show "generate_entry_inserts lib now a = Inl ValueError"
    if "timestamp_ok lib now a \<and> float_of_str lib (stripe_amount a) = None"
    using that by (simp add: generate_entry_inserts_eq entry_rows_bad_amount)
  show "generate_entry_inserts lib now a = Inl ValueError" if "\<not> timestamp_ok lib now a"
    using that
    by (simp add: generate_entry_inserts_eq entry_rows_def submission_date_of_error)
  show "generate_entry_inserts lib now a = Inl ValueError"
    if "timestamp_ok lib now a \<and> float_of_str lib (stripe_amount a) = Some NaN"
    using that by (simp add: generate_entry_inserts_eq entry_rows_amount_error)
  show "generate_entry_inserts lib now a = Inl OverflowError"
    if "timestamp_ok lib now a \<and>
      (float_of_str lib (stripe_amount a) = Some PosInf \<or>
       float_of_str lib (stripe_amount a) = Some NegInf)"
    using that by (auto simp add: generate_entry_inserts_eq entry_rows_amount_error)
  show "generate_entry_inserts lib now a = Inl UnicodeEncodeError"
    if "timestamp_ok lib now a \<and> amount_ok lib a \<and>
      \<not> (encodable (first_name a) \<and> encodable (last_name a) \<and>
         encodable (stripe_transaction_id a) \<and> encodable (stripe_amount a) \<and>
         encodable (currency a))"
    using that entry_rows_unencodable [of lib now a]
    by (simp add: generate_entry_inserts_eq)
qed

theorem generation_failure_modes_witness:
  "ids_printable example_entry \<and> ids_printable bad_date_entry \<and>
   ids_printable (plain_entry\<lparr>stripe_amount := ascii ''abc''\<rparr>) \<and>
   ids_printable (plain_entry\<lparr>first_name := [0xD800]\<rparr>) \<and>
   succeeds (generate_entry_inserts ref_lib example_now example_entry) \<and>
   timestamp_ok ref_lib example_now example_entry \<and> amount_ok ref_lib example_entry \<and>
   succeeds (generate_entry_inserts ref_lib example_now
     (example_entry\<lparr>email := [], phone := [], grade := [], dojo_name := [], birth_date := [],
        gender := [], party := False, t_shirt := True, t_shirt_size := Some []\<rparr>)) \<and>
   \<not> timestamp_ok ref_lib example_now bad_date_entry \<and>
   generate_entry_inserts ref_lib example_now bad_date_entry = Inl ValueError \<and>
   float_of_str ref_lib (stripe_amount (plain_entry\<lparr>stripe_amount := ascii ''abc''\<rparr>)) = None \<and>
   generate_entry_inserts ref_lib example_now (plain_entry\<lparr>stripe_amount := ascii ''abc''\<rparr>) =
     Inl ValueError \<and>
   generate_entry_inserts ref_lib example_now (plain_entry\<lparr>first_name := [0xD800]\<rparr>) =
     Inl UnicodeEncodeError"
proof -
  let ?bad = "plain_entry\<lparr>stripe_amount := ascii ''abc''\<rparr>"
  let ?sur = "plain_entry\<lparr>first_name := [0xD800]\<rparr>"
  have i: "ids_printable example_entry" "ids_printable bad_date_entry" "ids_printable ?bad"
    "ids_printable ?sur"
    by (rule ids_printable_small;
        simp add: example_entry_def plain_entry_def bad_date_entry_def)+
  have n: "float_of_str ref_lib (stripe_amount ?bad) = None"
    by (simp add: ref_lib_def ref_float_of_str_def number_of_digits_def)
  have t: "timestamp_ok ref_lib example_now ?bad" "timestamp_ok ref_lib example_now ?sur"
    using example_timestamp_ok(2) by (simp_all add: timestamp_ok_def created_of_def)
  have m: "amount_ok ref_lib ?sur"
    using example_amount_ok(2) by (simp add: amount_ok_def)
  have u: "\<not> encodable (first_name ?sur)"
    by simp
  from generation_failure_modes [OF i(1), where lib = ref_lib and now = example_now
      and e = "[]" and p = "[]" and g = "[]" and d = "[]" and b = "[]"
      and ge = "[]" and pa = False and ts = True and sz = "Some []"]
    example_timestamp_ok example_amount_ok example_encodable
  have a: "succeeds (generate_entry_inserts ref_lib example_now example_entry)"
    "succeeds (generate_entry_inserts ref_lib example_now
     (example_entry\<lparr>email := [], phone := [], grade := [], dojo_name := [], birth_date := [],
        gender := [], party := False, t_shirt := True, t_shirt_size := Some []\<rparr>))"
    by simp_all
  from generation_failure_modes [OF i(2), where lib = ref_lib and now = example_now]
    example_timestamp_ok(3)
  have b: "generate_entry_inserts ref_lib example_now bad_date_entry = Inl ValueError"
    by blast
  from generation_failure_modes [OF i(3), where lib = ref_lib and now = example_now] n t(1)
  have c: "generate_entry_inserts ref_lib example_now ?bad = Inl ValueError"
    by blast
  from generation_failure_modes [OF i(4), where lib = ref_lib and now = example_now] t(2) m u
  have d: "generate_entry_inserts ref_lib example_now ?sur = Inl UnicodeEncodeError"
    by blast
  from i a b c d n example_timestamp_ok example_amount_ok show ?thesis
    by blast
qed

text \<open>
  A creation timestamp in another format, with a well-formed amount, makes generation
  fail.
\<close>

theorem timestamp_override_counterexample:
  "amount_ok ref_lib bad_date_entry \<and>
   date_created bad_date_entry = Some (ascii ''15/06/2025'') \<and>
   generate_entry_inserts ref_lib example_now bad_date_entry = Inl ValueError"
  using example_timestamp_ok(3) example_amount_ok(3)
  by (simp add: generate_entry_inserts_eq entry_rows_def submission_date_of_error)
     (simp add: bad_date_entry_def)

section \<open>Batch generation\<close>

lemma entries_loop_Inr:
  "entries_loop lib clock i entries acc = Inr qs \<longleftrightarrow>
     (\<exists>qss. length qss = length entries \<and>
        (\<forall>j < length entries.
           generate_entry_inserts lib (clock (i + j)) (batch_call_args (entries ! j)) =
             Inr (qss ! j)) \<and>
        qs = acc @ concat (map with_separator qss))"
proof (induction entries arbitrary: i acc)
  case Nil
  then show ?case by auto
next
  case (Cons entry rest)
  show ?case
  proof (cases "generate_entry_inserts lib (clock i) (batch_call_args entry)")
    case (Inl e)
    then show ?thesis by (auto simp add: nth_Cons split: nat.splits) 
  next
    case (Inr q)
    have "entries_loop lib clock i (entry # rest) acc = Inr qs \<longleftrightarrow>
          entries_loop lib clock (Suc i) rest ((acc @ q) @ [[]]) = Inr qs"
      using Inr by simp
    also have "\<dots> \<longleftrightarrow> (\<exists>qss. length qss = length rest \<and>
        (\<forall>j < length rest.
           generate_entry_inserts lib (clock (Suc i + j)) (batch_call_args (rest ! j)) =
             Inr (qss ! j)) \<and>
        qs = ((acc @ q) @ [[]]) @ concat (map with_separator qss))"
      by (rule Cons.IH)
    also have "\<dots> \<longleftrightarrow> (\<exists>qss. length qss = length (entry # rest) \<and>
        (\<forall>j < length (entry # rest).
           generate_entry_inserts lib (clock (i + j)) (batch_call_args ((entry # rest) ! j)) =
             Inr (qss ! j)) \<and>
        qs = acc @ concat (map with_separator qss))" (is "?L \<longleftrightarrow> ?R")
    proof
      assume ?L
      then obtain qss where qss: "length qss = length rest"
        "\<forall>j < length rest.
           generate_entry_inserts lib (clock (Suc i + j)) (batch_call_args (rest ! j)) =
             Inr (qss ! j)"
        "qs = ((acc @ q) @ [[]]) @ concat (map with_separator qss)" by blast
      have "\<forall>j < length (entry # rest).
           generate_entry_inserts lib (clock (i + j)) (batch_call_args ((entry # rest) ! j)) =
             Inr ((q # qss) ! j)"
        using Inr qss(2) by (auto simp add: nth_Cons split: nat.splits)
      with qss(1,3) show ?R
        by (intro exI [of _ "q # qss"]) (simp add: with_separator_def)
    next
      assume ?R
      then obtain qss where qss: "length qss = length (entry # rest)"
        "\<forall>j < length (entry # rest).
           generate_entry_inserts lib (clock (i + j)) (batch_call_args ((entry # rest) ! j)) =
             Inr (qss ! j)"
        "qs = acc @ concat (map with_separator qss)" by blast
      from qss(1) obtain q' qss' where c: "qss = q' # qss'" by (cases qss) auto
      from qss(2) [rule_format, of 0] Inr c have q': "q' = q" by simp
      have "\<forall>j < length rest.
           generate_entry_inserts lib (clock (Suc i + j)) (batch_call_args (rest ! j)) =
             Inr (qss' ! j)"
      proof (intro allI impI)
        fix j assume "j < length rest"
        with qss(2) [rule_format, of "Suc j"] c
        show "generate_entry_inserts lib (clock (Suc i + j)) (batch_call_args (rest ! j)) =
             Inr (qss' ! j)" by simp
      qed
      with qss(1,3) c q' show ?L
        by (intro exI [of _ qss']) (simp add: with_separator_def)
    qed
    finally show ?thesis .
  qed
qed

lemma generate_multiple_entries_Inr:
  "generate_multiple_entries lib clock entries = Inr qs \<longleftrightarrow>
     (\<exists>qss. length qss = length entries \<and>
        (\<forall>j < length entries.
           generate_entry_inserts lib (clock j) (batch_call_args (entries ! j)) =
             Inr (qss ! j)) \<and>
        qs = concat (map with_separator qss))"
  by (simp add: generate_multiple_entries_def entries_loop_Inr)

lemma batch_call_args_simps [simp]:
  "\<not> t_shirt (batch_call_args e)" "\<not> party (batch_call_args e)"
  "meta_id_start (batch_call_args e) = meta_id_start e"
  "entry_id (batch_call_args e) = entry_id e"
  "date_created (batch_call_args e) = date_created e"
  by (simp_all add: batch_call_args_def)

lemma length_concat_with_separator:
  "length (concat (map with_separator qss)) = sum_list (map length qss) + length qss"
  by (induction qss) (simp_all add: with_separator_def)

lemma last_concat_with_separator:
  "qss \<noteq> [] \<Longrightarrow> last (concat (map with_separator qss)) = []"
proof (induction qss)
  case Nil
  then show ?case by simp
next
  case (Cons q qss)
  show ?case
  proof (cases "qss = []")
    case True
    then show ?thesis by (simp add: with_separator_def)
  next
    case False
    then have "concat (map with_separator qss) \<noteq> []"
      by (cases qss) (simp_all add: with_separator_def)
    with Cons.IH [OF False] show ?thesis by simp
  qed
qed

lemma batch_entry_rows:
  assumes "generate_entry_inserts lib now (batch_call_args e) = Inr q"
  shows "(\<exists>vs. emitted lib now (batch_call_args e) unconditional_keys vs q) \<and> length q = 12"
proof -
  from generate_entry_inserts_emitted [OF assms] obtain vs
    where vs: "emitted lib now (batch_call_args e) (included (field_keys (batch_call_args e))) vs q"
    by blast
  have k: "included (field_keys (batch_call_args e)) = unconditional_keys"
    by (simp add: included_keys_plain)
  from vs have "length q = 12"
    unfolding k by (simp add: emitted_def unconditional_keys_def del: ascii_simps)
  with vs k show ?thesis by auto
qed

lemma sum_list_const:
  "\<forall>x \<in> set xs. f x = (c::nat) \<Longrightarrow> sum_list (map f xs) = c * length xs"
  by (induction xs) simp_all

lemma batch_call_args_eq:
  "batch_call_args e = e\<lparr>party := False, t_shirt := False, t_shirt_size := None\<rparr>"
  by (cases e) (simp add: batch_call_args_def)

text \<open>
  Claim C3, as the code has it: batch generation returns exactly when the generation of
  every record returns, and then it returns, in input order, every record's statement
  sequence followed by one empty separator line, also after the last record. The loop
  calls the row builder with the record's identifiers, person fields, payment fields,
  timestamp and currency, and with no party, t-shirt or size: the arguments of the call
  are the record with the two flags false and no size, so each record gives the twelve
  unconditional rows of its own fields, numbered from its own starting identifier.
\<close>

theorem generate_multiple_entries_concat:
  "(generate_multiple_entries lib clock entries = Inr qs \<longleftrightarrow>
     (\<exists>qss. length qss = length entries \<and>
        (\<forall>j < length entries.
           generate_entry_inserts lib (clock j) (batch_call_args (entries ! j)) =
             Inr (qss ! j) \<and>
           (\<exists>vs. emitted lib (clock j) (batch_call_args (entries ! j)) unconditional_keys vs
                   (qss ! j))) \<and>
        qs = concat (map with_separator qss))) \<and>
   meta_id_start (batch_call_args e) = meta_id_start e \<and>
   entry_id (batch_call_args e) = entry_id e \<and>
   date_created (batch_call_args e) = date_created e \<and>
   currency (batch_call_args e) = currency e \<and>
   \<not> party (batch_call_args e) \<and> \<not> t_shirt (batch_call_args e) \<and>
   t_shirt_size (batch_call_args e) = None \<and>
   with_separator q = q @ [[]] \<and>
   batch_call_args e = e\<lparr>party := False, t_shirt := False, t_shirt_size := None\<rparr>"
proof -
  have "generate_multiple_entries lib clock entries = Inr qs \<longleftrightarrow>
     (\<exists>qss. length qss = length entries \<and>
        (\<forall>j < length entries.
           generate_entry_inserts lib (clock j) (batch_call_args (entries ! j)) =
             Inr (qss ! j) \<and>
           (\<exists>vs. emitted lib (clock j) (batch_call_args (entries ! j)) unconditional_keys vs
                   (qss ! j))) \<and>
        qs = concat (map with_separator qss))"
    unfolding generate_multiple_entries_Inr
    using batch_entry_rows by (metis (no_types, lifting))
  then show ?thesis
    by (simp add: with_separator_def batch_call_args_eq)
qed

text \<open>
  Claim C10: when the generation of a non-empty batch returns, the returned list ends
  with an empty string, one separator follows the statements of every entry, and the
  length of the list is the number of emitted rows plus the number of entries. Every
  batch entry gives twelve rows, so this is thirteen lines for each entry.
\<close>

theorem generate_multiple_entries_separators:
  assumes "generate_multiple_entries lib clock entries = Inr qs" "entries \<noteq> []"
  shows "last qs = [] \<and>
         (\<exists>qss. length qss = length entries \<and>
            (\<forall>j < length entries.
               generate_entry_inserts lib (clock j) (batch_call_args (entries ! j)) =
                 Inr (qss ! j)) \<and>
            qs = concat (map with_separator qss) \<and>
            length qs = sum_list (map length qss) + length entries) \<and>
         length qs = 12 * length entries + length entries"
proof -
  from assms(1) obtain qss where qss: "length qss = length entries"
    "\<forall>j < length entries.
       generate_entry_inserts lib (clock j) (batch_call_args (entries ! j)) = Inr (qss ! j)"
    "qs = concat (map with_separator qss)"
    unfolding generate_multiple_entries_Inr by blast
  from qss(1) assms(2) have ne: "qss \<noteq> []" by auto
  have len: "length qs = sum_list (map length qss) + length entries"
    by (simp add: qss(3) length_concat_with_separator qss(1))
  have "\<forall>q \<in> set qss. length q = 12"
  proof
    fix q assume "q \<in> set qss"
    then obtain j where j: "j < length qss" "q = qss ! j" by (auto simp add: in_set_conv_nth)
    with qss(1,2) have "generate_entry_inserts lib (clock j) (batch_call_args (entries ! j)) = Inr q"
      by simp
    from batch_entry_rows [OF this] show "length q = 12" by simp
  qed
  then have "sum_list (map length qss) = 12 * length qss" by (rule sum_list_const)
  with len qss ne show ?thesis
    by (auto simp add: last_concat_with_separator)
qed

lemma generate_entry_inserts_length:
  assumes "generate_entry_inserts lib now a = Inr qs"
  shows "length qs = length (included (field_keys a))"
  using generate_entry_inserts_emitted [OF assms] by (auto simp add: emitted_def)

lemma example_clock_simps:
  "example_clock 0 = example_now"
  "strftime_ts ref_lib (example_clock 1) = ascii ''2025-07-21 09:30:06''"
  "strftime_ts ref_lib (example_clock (Suc 0)) = ascii ''2025-07-21 09:30:06''"
  by (simp_all add: example_clock_def example_now_def ref_lib_def ref_strftime_ts_def
        zfill_def str_nat.simps)

lemma batch_examples_succeed:
  "succeeds (generate_entry_inserts ref_lib (example_clock 0) (batch_call_args plain_entry))"
  "succeeds (generate_entry_inserts ref_lib (example_clock 1) (batch_call_args example_entry))"
  "succeeds (generate_entry_inserts ref_lib (example_clock 0) (batch_call_args example_entry))"
proof -
  have t: "timestamp_ok ref_lib (example_clock 0) (batch_call_args plain_entry)"
    "timestamp_ok ref_lib (example_clock 1) (batch_call_args example_entry)"
    "timestamp_ok ref_lib (example_clock 0) (batch_call_args example_entry)"
    by (simp_all add: timestamp_ok_def created_of_def batch_call_args_def example_entry_def
          plain_entry_def example_clock_def example_now_def ref_lib_def ref_strftime_ts_def
          zfill_def str_nat.simps ref_strptime_ts_def number_of_digits_def valid_datetime_def
          days_in_month_def)
  have a: "amount_ok ref_lib (batch_call_args plain_entry)"
    "amount_ok ref_lib (batch_call_args example_entry)"
    using example_amount_ok(1,2) by (simp_all add: amount_ok_def batch_call_args_def)
  have e: "encodable (first_name (batch_call_args plain_entry))"
    "encodable (last_name (batch_call_args plain_entry))"
    "encodable (stripe_transaction_id (batch_call_args plain_entry))"
    "encodable (stripe_amount (batch_call_args plain_entry))"
    "encodable (currency (batch_call_args plain_entry))"
    "encodable (first_name (batch_call_args example_entry))"
    "encodable (last_name (batch_call_args example_entry))"
    "encodable (stripe_transaction_id (batch_call_args example_entry))"
    "encodable (stripe_amount (batch_call_args example_entry))"
    "encodable (currency (batch_call_args example_entry))"
    using example_encodable by (simp_all add: batch_call_args_def)
  from t a e
  show "succeeds (generate_entry_inserts ref_lib (example_clock 0) (batch_call_args plain_entry))"
    "succeeds (generate_entry_inserts ref_lib (example_clock 1) (batch_call_args example_entry))"
    "succeeds (generate_entry_inserts ref_lib (example_clock 0) (batch_call_args example_entry))"
    by (simp_all add: generate_entry_inserts_succeeds entry_rows_succeeds)
qed

theorem generate_multiple_entries_concat_witness:
  "\<exists>qs q1 q2. generate_multiple_entries ref_lib example_clock [plain_entry, example_entry] = Inr qs \<and>
     qs = q1 @ [[]] @ q2 @ [[]] \<and> length q1 = 12 \<and> length q2 = 12 \<and>
     (\<exists>v. q1 ! 0 = generate_insert_query ref_lib (example_clock 0) 7000 669 (ascii ''hidden-1'') v
                     (Some (ascii ''2025-06-15 10:30:00''))) \<and>
     (\<exists>v. q2 ! 0 = generate_insert_query ref_lib (example_clock 1) 6031 668 (ascii ''hidden-1'') v
                     (Some (ascii ''2025-07-21 09:30:06'')))"
proof -
  let ?es = "[plain_entry, example_entry]"
  from batch_examples_succeed(1,2) obtain q1 q2
    where q1: "generate_entry_inserts ref_lib (example_clock 0) (batch_call_args plain_entry) = Inr q1"
      and q2: "generate_entry_inserts ref_lib (example_clock 1) (batch_call_args example_entry) = Inr q2"
    by (auto simp add: succeeds_iff)
  from batch_entry_rows [OF q1] obtain vs1
    where vs1: "emitted ref_lib (example_clock 0) (batch_call_args plain_entry) unconditional_keys vs1 q1"
      and l1: "length q1 = 12" by blast
  from batch_entry_rows [OF q2] obtain vs2
    where vs2: "emitted ref_lib (example_clock 1) (batch_call_args example_entry) unconditional_keys vs2 q2"
      and l2: "length q2 = 12" by blast
  have "\<exists>qss. length qss = length ?es \<and>
        (\<forall>j < length ?es.
           generate_entry_inserts ref_lib (example_clock j) (batch_call_args (?es ! j)) =
             Inr (qss ! j) \<and>
           (\<exists>vs. emitted ref_lib (example_clock j) (batch_call_args (?es ! j)) unconditional_keys vs
                   (qss ! j))) \<and>
        q1 @ [[]] @ q2 @ [[]] = concat (map with_separator qss)"
    using q1 q2 vs1 vs2
    by (intro exI [of _ "[q1, q2]"]) (auto simp add: less_Suc_eq with_separator_def)
  with generate_multiple_entries_concat [of ref_lib example_clock ?es "q1 @ [[]] @ q2 @ [[]]"]
  have g: "generate_multiple_entries ref_lib example_clock ?es = Inr (q1 @ [[]] @ q2 @ [[]])"
    by blast
  from vs1 have r1: "q1 ! 0 = generate_insert_query ref_lib (example_clock 0) 7000 669
      (ascii ''hidden-1'') (vs1 ! 0) (Some (ascii ''2025-06-15 10:30:00''))"
    unfolding emitted_def
    by (simp add: unconditional_keys_def example_flags created_of_def plain_entry_def
          del: ascii_simps)
  from vs2 have r2: "q2 ! 0 = generate_insert_query ref_lib (example_clock 1) 6031 668
      (ascii ''hidden-1'') (vs2 ! 0) (Some (ascii ''2025-07-21 09:30:06''))"
    unfolding emitted_def
    by (simp add: unconditional_keys_def example_flags created_of_def example_entry_def
          example_clock_simps del: ascii_simps)
  from g l1 l2 r1 r2 show ?thesis by blast
qed

theorem generate_multiple_entries_separators_witness:
  "[plain_entry, example_entry] \<noteq> [] \<and>
   (\<exists>qs. generate_multiple_entries ref_lib example_clock [plain_entry, example_entry] = Inr qs \<and>
      last qs = [] \<and> length qs = 26)"
proof -
  let ?es = "[plain_entry, example_entry]"
  from batch_examples_succeed(1,2) obtain q1 q2
    where q1: "generate_entry_inserts ref_lib (example_clock 0) (batch_call_args plain_entry) = Inr q1"
      and q2: "generate_entry_inserts ref_lib (example_clock 1) (batch_call_args example_entry) = Inr q2"
    by (auto simp add: succeeds_iff)
  have "\<exists>qss. length qss = length ?es \<and>
        (\<forall>j < length ?es.
           generate_entry_inserts ref_lib (example_clock j) (batch_call_args (?es ! j)) =
             Inr (qss ! j)) \<and>
        concat (map with_separator [q1, q2]) = concat (map with_separator qss)"
    using q1 q2 by (intro exI [of _ "[q1, q2]"]) (auto simp add: less_Suc_eq)
  then have g: "generate_multiple_entries ref_lib example_clock ?es =
      Inr (concat (map with_separator [q1, q2]))"
    unfolding generate_multiple_entries_Inr .
  have ne: "?es \<noteq> []" by simp
  from generate_multiple_entries_separators [OF g ne] g show ?thesis by auto
qed

text \<open>
  A record with the t-shirt and the party has sixteen rows of its own, but twelve in a
  batch: the batch is not the concatenation of the records' own statement sequences.
\<close>

theorem batch_ignores_flags_counterexample:
  "t_shirt example_entry \<and> party example_entry \<and>
   returned_length (generate_multiple_entries ref_lib example_clock [example_entry]) = 13 \<and>
   returned_length (spec_batch ref_lib example_clock 0 [example_entry]) = 17 \<and>
   generate_multiple_entries ref_lib example_clock [example_entry] \<noteq>
     spec_batch ref_lib example_clock 0 [example_entry]"
proof -
  from batch_examples_succeed(3) obtain q
    where q: "generate_entry_inserts ref_lib (example_clock 0) (batch_call_args example_entry) = Inr q"
    by (auto simp add: succeeds_iff)
  from example_succeeds(1) obtain q'
    where q': "generate_entry_inserts ref_lib (example_clock 0) example_entry = Inr q'"
    by (auto simp add: succeeds_iff example_clock_simps)
  from batch_entry_rows [OF q] have lq: "length q = 12" by simp
  from generate_entry_inserts_length [OF q'] have lq': "length q' = 16"
    by (simp add: length_included_keys example_flags)
  have g: "generate_multiple_entries ref_lib example_clock [example_entry] = Inr (q @ [[]])"
    using q by (simp add: generate_multiple_entries_def)
  have s: "spec_batch ref_lib example_clock 0 [example_entry] = Inr (q' @ [[]])"
    using q' by (simp add: with_separator_def)
  from lq lq' have "q @ [[]] \<noteq> q' @ [[]]" by auto
  with g s lq lq' show ?thesis
    by (simp add: returned_length_def example_flags)
qed

end
